theory Spec2Isabelle
  imports Complex_Main "HOL-Library.Char_ord" "HOL-Library.List_Lexorder"
begin

section \<open>Conventions of the embedding\<close>

text \<open>
  The C++ sources are embedded function by function. A \<^verbatim>\<open>double\<close> is a \<^typ>\<open>real\<close>
  (exact arithmetic: rounding is not modelled), a \<^verbatim>\<open>std::string\<close> is a \<^typ>\<open>string\<close>,
  a \<^verbatim>\<open>std::map\<close> is a partial map, a time point is an \<^typ>\<open>int\<close> count of clock ticks. The
  one exception is the retry delay of the adapter, where the rounding of the \<^verbatim>\<open>double\<close>
  product and the width of the \<^verbatim>\<open>int\<close> are written out.
  A C++ exception (one derived from \<^verbatim>\<open>std::exception\<close>) is a value of type \<open>exception\<close>
  carrying the text of \<^verbatim>\<open>what()\<close>; a function that may throw returns \<open>exception + 'a\<close> with
  \<open>Inl\<close> for the throw.
\<close>

datatype exception = InvalidArgument string | RuntimeError string

fun what :: "exception \<Rightarrow> string" where
  "what (InvalidArgument m) = m"
| "what (RuntimeError m) = m"

section \<open>Execution types (market/types/execution\_types.h)\<close>

datatype OrderSide = BUY | SELL

datatype OrderType =
  MARKET | LIMIT | POST_ONLY | STOP_MARKET | STOP_LIMIT | TAKE_PROFIT | LIQUIDATION

datatype OrderStatus =
  NEW | PARTIALLY_FILLED | FILLED | CANCELED | REJECTED | EXPIRED | PENDING_CANCEL

datatype TimeInForce = GTC | IOC | FOK | GTX

datatype PositionSide = LONG | SHORT | BOTH

datatype MarginType = ISOLATED | CROSS

record OrderRequest =
  rq_symbol :: string
  rq_side :: OrderSide
  rq_type :: OrderType
  rq_quantity :: real
  rq_price :: real
  rq_stop_price :: real
  rq_client_order_id :: string
  rq_time_in_force :: TimeInForce
  rq_reduce_only :: bool
  rq_close_position :: bool
  rq_position_side :: PositionSide
  rq_margin_type :: MarginType
  rq_activation_price :: real
  rq_callback_rate :: real
  rq_extra_params :: "string \<rightharpoonup> string"

record OrderInfo =
  oi_order_id :: string
  oi_client_order_id :: string
  oi_symbol :: string
  oi_side :: OrderSide
  oi_type :: OrderType
  oi_status :: OrderStatus
  oi_position_side :: PositionSide
  oi_margin_type :: MarginType
  oi_original_quantity :: real
  oi_executed_quantity :: real
  oi_remaining_quantity :: real
  oi_price :: real
  oi_average_price :: real
  oi_stop_price :: real
  oi_commission :: real
  oi_commission_asset :: string

subsection \<open>Enum to string\<close>

fun orderSideToString :: "OrderSide \<Rightarrow> string" where
  "orderSideToString BUY = ''BUY''"
| "orderSideToString SELL = ''SELL''"

fun orderTypeToString :: "OrderType \<Rightarrow> string" where
  "orderTypeToString MARKET = ''MARKET''"
| "orderTypeToString LIMIT = ''LIMIT''"
| "orderTypeToString POST_ONLY = ''POST_ONLY''"
| "orderTypeToString STOP_MARKET = ''STOP_MARKET''"
| "orderTypeToString STOP_LIMIT = ''STOP_LIMIT''"
| "orderTypeToString TAKE_PROFIT = ''TAKE_PROFIT''"
| "orderTypeToString LIQUIDATION = ''LIQUIDATION''"

fun orderStatusToString :: "OrderStatus \<Rightarrow> string" where
  "orderStatusToString NEW = ''NEW''"
| "orderStatusToString PARTIALLY_FILLED = ''PARTIALLY_FILLED''"
| "orderStatusToString FILLED = ''FILLED''"
| "orderStatusToString CANCELED = ''CANCELED''"
| "orderStatusToString REJECTED = ''REJECTED''"
| "orderStatusToString EXPIRED = ''EXPIRED''"
| "orderStatusToString PENDING_CANCEL = ''PENDING_CANCEL''"

fun timeInForceToString :: "TimeInForce \<Rightarrow> string" where
  "timeInForceToString GTC = ''GTC''"
| "timeInForceToString IOC = ''IOC''"
| "timeInForceToString FOK = ''FOK''"
| "timeInForceToString GTX = ''GTX''"

fun positionSideToString :: "PositionSide \<Rightarrow> string" where
  "positionSideToString LONG = ''LONG''"
| "positionSideToString SHORT = ''SHORT''"
| "positionSideToString BOTH = ''BOTH''"

fun marginTypeToString :: "MarginType \<Rightarrow> string" where
  "marginTypeToString ISOLATED = ''ISOLATED''"
| "marginTypeToString CROSS = ''CROSS''"

subsection \<open>String to enum\<close>

text \<open>
  The header defines the reverse conversion for three of the six enumerations only:
  order side, order type and order status. Each is a chain of comparisons that ends in
  \<^verbatim>\<open>throw std::invalid_argument\<close>.
\<close>

definition stringToOrderSide :: "string \<Rightarrow> exception + OrderSide" where
  "stringToOrderSide str =
     (if str = ''BUY'' then Inr BUY
      else if str = ''SELL'' then Inr SELL
      else Inl (InvalidArgument (''Invalid order side: '' @ str)))"

definition stringToOrderType :: "string \<Rightarrow> exception + OrderType" where
  "stringToOrderType str =
     (if str = ''MARKET'' then Inr MARKET
      else if str = ''LIMIT'' then Inr LIMIT
      else if str = ''POST_ONLY'' then Inr POST_ONLY
      else if str = ''STOP_MARKET'' then Inr STOP_MARKET
      else if str = ''STOP_LIMIT'' then Inr STOP_LIMIT
      else if str = ''TAKE_PROFIT'' then Inr TAKE_PROFIT
      else if str = ''LIQUIDATION'' then Inr LIQUIDATION
      else Inl (InvalidArgument (''Invalid order type: '' @ str)))"

definition stringToOrderStatus :: "string \<Rightarrow> exception + OrderStatus" where
  "stringToOrderStatus str =
     (if str = ''NEW'' then Inr NEW
      else if str = ''PARTIALLY_FILLED'' then Inr PARTIALLY_FILLED
      else if str = ''FILLED'' then Inr FILLED
      else if str = ''CANCELED'' then Inr CANCELED
      else if str = ''REJECTED'' then Inr REJECTED
      else if str = ''EXPIRED'' then Inr EXPIRED
      else if str = ''PENDING_CANCEL'' then Inr PENDING_CANCEL
      else Inl (InvalidArgument (''Invalid order status: '' @ str)))"

text \<open>
  The header's conversions, gathered by enumeration so that a statement can range over all
  six. \<open>enum_to_string\<close> is the enum-to-string function of the value's enumeration.
  \<open>string_to_enum k\<close> is the string-to-enum function that the header defines for the
  enumeration \<open>k\<close>; it is \<open>None\<close> for time in force, position side and margin type, for which
  the header (and the rest of the sources) defines no such function.
\<close>

datatype EnumKind =
  KOrderSide | KOrderType | KOrderStatus | KTimeInForce | KPositionSide | KMarginType

datatype EnumValue =
  VOrderSide OrderSide | VOrderType OrderType | VOrderStatus OrderStatus
| VTimeInForce TimeInForce | VPositionSide PositionSide | VMarginType MarginType

fun kind_of :: "EnumValue \<Rightarrow> EnumKind" where
  "kind_of (VOrderSide v) = KOrderSide"
| "kind_of (VOrderType v) = KOrderType"
| "kind_of (VOrderStatus v) = KOrderStatus"
| "kind_of (VTimeInForce v) = KTimeInForce"
| "kind_of (VPositionSide v) = KPositionSide"
| "kind_of (VMarginType v) = KMarginType"

fun enum_to_string :: "EnumValue \<Rightarrow> string" where
  "enum_to_string (VOrderSide v) = orderSideToString v"
| "enum_to_string (VOrderType v) = orderTypeToString v"
| "enum_to_string (VOrderStatus v) = orderStatusToString v"
| "enum_to_string (VTimeInForce v) = timeInForceToString v"
| "enum_to_string (VPositionSide v) = positionSideToString v"
| "enum_to_string (VMarginType v) = marginTypeToString v"

fun string_to_enum :: "EnumKind \<Rightarrow> (string \<Rightarrow> exception + EnumValue) option" where
  "string_to_enum KOrderSide = Some (\<lambda>str. map_sum id VOrderSide (stringToOrderSide str))"
| "string_to_enum KOrderType = Some (\<lambda>str. map_sum id VOrderType (stringToOrderType str))"
| "string_to_enum KOrderStatus = Some (\<lambda>str. map_sum id VOrderStatus (stringToOrderStatus str))"
| "string_to_enum KTimeInForce = None"
| "string_to_enum KPositionSide = None"
| "string_to_enum KMarginType = None"

section \<open>Exchange adapter (market/api/binance\_api.cpp)\<close>

subsection \<open>Library functions used by the adapter\<close>

text \<open>
  \<^verbatim>\<open>std::string::find\<close>: the first position at which the pattern occurs, \<open>None\<close> for
  \<^verbatim>\<open>npos\<close>. \<^verbatim>\<open>substr(pos, n)\<close> is \<open>take n (drop pos s)\<close> for \<open>pos \<le> length s\<close>, the only
  case the adapter reaches.
\<close>

fun find_from :: "string \<Rightarrow> string \<Rightarrow> nat \<Rightarrow> nat option" where
  "find_from pat [] i = (if pat = [] then Some i else None)"
| "find_from pat (c # cs) i =
     (if take (length pat) (c # cs) = pat then Some i else find_from pat cs (Suc i))"

definition find_str :: "string \<Rightarrow> string \<Rightarrow> nat option" where
  "find_str s pat = find_from pat s 0"

definition substr :: "string \<Rightarrow> nat \<Rightarrow> nat \<Rightarrow> string" where
  "substr s pos n = take n (drop pos s)"

text \<open>
  \<^verbatim>\<open>std::stoi\<close> in base 10: leading white space is skipped, an optional sign is read,
  then the longest run of decimal digits. No digit is \<^verbatim>\<open>std::invalid_argument\<close>, a value
  outside the 32-bit \<^verbatim>\<open>int\<close> is \<^verbatim>\<open>std::out_of_range\<close>; both are \<open>None\<close> here, since the
  only caller catches every \<^verbatim>\<open>std::exception\<close>.
\<close>

definition isspace :: "char \<Rightarrow> bool" where
  "isspace c = (of_char c \<in> {9::nat, 10, 11, 12, 13, 32})"

definition isdigit :: "char \<Rightarrow> bool" where
  "isdigit c = (48 \<le> (of_char c :: nat) \<and> (of_char c :: nat) \<le> 57)"

definition digits_value :: "string \<Rightarrow> int" where
  "digits_value ds = foldl (\<lambda>acc c. 10 * acc + (int (of_char c) - 48)) 0 ds"

definition stoi :: "string \<Rightarrow> int option" where
  "stoi s =
     (let t = dropWhile isspace s;
          neg = (t \<noteq> [] \<and> hd t = CHR ''-'');
          u = (if t \<noteq> [] \<and> (hd t = CHR ''-'' \<or> hd t = CHR ''+'') then tl t else t);
          ds = takeWhile isdigit u;
          v = (if neg then - digits_value ds else digits_value ds)
      in if ds = [] then None
         else if v < - 2147483648 \<or> 2147483647 < v then None
         else Some v)"

subsection \<open>Retry policy\<close>

record RetryConfig =
  max_retries :: int
  retry_delay_ms :: int
  backoff_multiplier :: real
  retriable_status_codes :: "int set"

text \<open>
  The constructor fills the retry configuration from three settings and a fixed code set
  (when the configuration has a \<^verbatim>\<open>retry\<close> section; without one the structure is left as it
  is). \<open>default_retry_config\<close> is what the settings' defaults give.
\<close>

definition init_retry_config :: "int \<Rightarrow> int \<Rightarrow> real \<Rightarrow> RetryConfig" where
  "init_retry_config mr d m =
     \<lparr> max_retries = mr, retry_delay_ms = d, backoff_multiplier = m,
       retriable_status_codes = {408, 429, 500, 502, 503, 504} \<rparr>"

definition default_retry_config :: RetryConfig where
  "default_retry_config = init_retry_config 3 1000 2"

definition extractStatusCode :: "string \<Rightarrow> int" where
  "extractStatusCode error_msg =
     (case find_str error_msg ''HTTP '' of
        Some pos \<Rightarrow>
          (case stoi (substr error_msg (pos + 5) 3) of Some v \<Rightarrow> v | None \<Rightarrow> 0)
      | None \<Rightarrow>
          (case find_str error_msg ''Code: '' of
             Some pos \<Rightarrow>
               (let code_str = drop (pos + 6) error_msg in
                case find_str code_str '','' of
                  Some p \<Rightarrow> (case stoi (take p code_str) of Some v \<Rightarrow> v | None \<Rightarrow> 0)
                | None \<Rightarrow> 0)
           | None \<Rightarrow> 0))"

definition shouldRetry :: "RetryConfig \<Rightarrow> int \<Rightarrow> int \<Rightarrow> bool" where
  "shouldRetry cfg status_code retry_count =
     (if retry_count \<ge> max_retries cfg then False
      else status_code \<in> retriable_status_codes cfg)"

text \<open>
  \<^verbatim>\<open>delay_ms *= backoff_multiplier\<close> on \<^verbatim>\<open>int delay_ms\<close> and a \<^verbatim>\<open>double\<close> multiplier: the
  \<^verbatim>\<open>int\<close> is converted to \<^verbatim>\<open>double\<close> (exactly), the product is rounded to the nearest
  \<^verbatim>\<open>double\<close> (53-bit significand, ties to even), and the result is converted back to a 32-bit
  \<^verbatim>\<open>int\<close>, which truncates toward zero. For a product outside the range of \<^verbatim>\<open>int\<close> the
  conversion is undefined in C++; on x86-64 it yields \<^verbatim>\<open>INT_MIN\<close>, and that is the value
  taken here. The multiplier of the configuration is the value of the \<^verbatim>\<open>double\<close>. (The
  exponent range of \<^verbatim>\<open>double\<close> is left out of \<open>round_to_double\<close>: a product too large for a
  \<^verbatim>\<open>double\<close> is too large for an \<^verbatim>\<open>int\<close> as well, and one below the normal range truncates
  to 0 either way.)
\<close>

definition round_half_even :: "real \<Rightarrow> int" where
  "round_half_even x =
     (let f = \<lfloor>x\<rfloor>; r = x - of_int f in
      if r < 1 / 2 then f
      else if 1 / 2 < r then f + 1
      else if even f then f else f + 1)"

definition round_to_double :: "real \<Rightarrow> real" where
  "round_to_double x =
     (if x = 0 then 0
      else let ulp = 2 powr (of_int \<lfloor>log 2 \<bar>x\<bar>\<rfloor> - 52)
           in of_int (round_half_even (x / ulp)) * ulp)"

definition double_to_int :: "real \<Rightarrow> int" where
  "double_to_int x =
     (if - 2147483649 < x \<and> x < 2147483648
      then (if x < 0 then \<lceil>x\<rceil> else \<lfloor>x\<rfloor>)
      else - 2147483648)"

definition next_delay :: "RetryConfig \<Rightarrow> int \<Rightarrow> int" where
  "next_delay cfg delay_ms =
     double_to_int (round_to_double (real_of_int delay_ms * backoff_multiplier cfg))"

text \<open>
  \<^verbatim>\<open>executeWithRetry\<close>. The wrapped operation is impure, so it is given as the sequence of
  its outcomes: \<open>func i\<close> is what the \<open>i\<close>-th invocation (from 0) returns or throws. The
  result is paired with the list of delays slept, in order.
\<close>

function executeWithRetry_from ::
  "RetryConfig \<Rightarrow> (nat \<Rightarrow> exception + 'a) \<Rightarrow> int \<Rightarrow> int \<Rightarrow> (exception + 'a) \<times> int list"
where
  "executeWithRetry_from cfg func retry_count delay_ms =
     (case func (nat retry_count) of
        Inr v \<Rightarrow> (Inr v, [])
      | Inl e \<Rightarrow>
          if \<not> shouldRetry cfg (extractStatusCode (what e)) retry_count then (Inl e, [])
          else apsnd ((#) delay_ms)
                 (executeWithRetry_from cfg func (retry_count + 1) (next_delay cfg delay_ms)))"
  by pat_completeness auto
termination
  by (relation "measure (\<lambda>(cfg, func, retry_count, delay_ms). nat (max_retries cfg - retry_count))")
     (auto simp: shouldRetry_def split: if_splits)

declare executeWithRetry_from.simps [simp del]

definition executeWithRetry ::
  "RetryConfig \<Rightarrow> (nat \<Rightarrow> exception + 'a) \<Rightarrow> (exception + 'a) \<times> int list" where
  "executeWithRetry cfg func = executeWithRetry_from cfg func 0 (retry_delay_ms cfg)"

text \<open>The delay slept before retry number \<open>i + 1\<close>.\<close>

definition backoff_delay :: "RetryConfig \<Rightarrow> nat \<Rightarrow> int" where
  "backoff_delay cfg i = (next_delay cfg ^^ i) (retry_delay_ms cfg)"

subsection \<open>Adapter operations\<close>

definition validateSymbol :: "string \<Rightarrow> exception option" where
  "validateSymbol symbol =
     (if symbol = [] then Some (InvalidArgument ''Symbol cannot be empty'')
      else if length symbol < 2 \<or> length symbol > 20
        then Some (InvalidArgument (''Invalid symbol length: '' @ symbol))
      else None)"

text \<open>
  \<^verbatim>\<open>BinanceApi::getOrderStatus\<close> and \<^verbatim>\<open>BinanceApi::cancelOrder\<close> validate the symbol inside
  the retried operation and then talk to the exchange. The exchange's side (request,
  response, parsing) is the parameter \<open>http\<close>: its outcome at each invocation.
\<close>

definition api_getOrderStatus ::
  "RetryConfig \<Rightarrow> (nat \<Rightarrow> exception + OrderInfo) \<Rightarrow> string \<Rightarrow> string
     \<Rightarrow> (exception + OrderInfo) \<times> int list" where
  "api_getOrderStatus cfg http symbol orderId =
     executeWithRetry cfg
       (\<lambda>i. case validateSymbol symbol of Some e \<Rightarrow> Inl e | None \<Rightarrow> http i)"

definition api_cancelOrder ::
  "RetryConfig \<Rightarrow> (nat \<Rightarrow> exception + unit) \<Rightarrow> string \<Rightarrow> string
     \<Rightarrow> (exception + bool) \<times> int list" where
  "api_cancelOrder cfg http symbol orderId =
     executeWithRetry cfg
       (\<lambda>i. case validateSymbol symbol of
               Some e \<Rightarrow> Inl e
             | None \<Rightarrow> (case http i of Inl e \<Rightarrow> Inl e | Inr _ \<Rightarrow> Inr True))"

text \<open>
  \<^verbatim>\<open>makeRequest\<close>, seen from its caller. What comes back from the exchange is a \<open>Reply\<close>:
  either the transfer fails (\<^verbatim>\<open>res != CURLE_OK\<close>, with the text of \<^verbatim>\<open>curl_easy_strerror\<close>), or
  there is an HTTP response with its status code and its body. The body is not JSON, or
  it is a JSON object with the members \<^verbatim>\<open>code\<close> and \<^verbatim>\<open>msg\<close> (given by their \<^verbatim>\<open>asString()\<close>),
  or it is any other JSON value, from which the operation takes its result. \<^verbatim>\<open>makeRequest\<close>
  never reads the status code of the response: the transfer is set up without
  \<^verbatim>\<open>CURLOPT_FAILONERROR\<close> and the code is not queried. Its three errors are those of
  \<^verbatim>\<open>handleCurlError\<close>, \<^verbatim>\<open>handleJsonError\<close> and \<^verbatim>\<open>validateResponse\<close>.
\<close>

datatype 'a HttpBody = NotJson string | ApiErrorBody string string | Payload 'a

datatype 'a Reply = CurlFailure string | HttpResponse int "'a HttpBody"

definition makeRequest :: "string \<Rightarrow> string \<Rightarrow> 'a Reply \<Rightarrow> exception + 'a" where
  "makeRequest http_method endpoint reply =
     (case reply of
        CurlFailure err \<Rightarrow>
          Inl (RuntimeError (''CURL error during '' @ http_method @ '' '' @ endpoint @ '': '' @ err))
      | HttpResponse status body \<Rightarrow>
          (case body of
             NotJson response \<Rightarrow>
               Inl (RuntimeError (''Failed to parse JSON response during '' @ http_method @ '' ''
                                    @ endpoint @ '': '' @ response))
           | ApiErrorBody code msg \<Rightarrow>
               Inl (RuntimeError (''API error - Code: '' @ code @ '', Message: '' @ msg))
           | Payload v \<Rightarrow> Inr v))"

text \<open>
  \<^verbatim>\<open>BinanceApi::placeOrder\<close>. Each invocation of the retried operation first asks the order
  rate limiter (\<open>tryAcquire i\<close> is its answer at invocation \<open>i\<close>), validates the symbol, posts
  the order and returns the \<^verbatim>\<open>orderId\<close> of the response; \<open>replies i\<close> is what the exchange
  answers at invocation \<open>i\<close>.
\<close>

definition api_placeOrder ::
  "RetryConfig \<Rightarrow> (nat \<Rightarrow> bool) \<Rightarrow> (nat \<Rightarrow> string Reply) \<Rightarrow> OrderRequest
     \<Rightarrow> (exception + string) \<times> int list" where
  "api_placeOrder cfg tryAcquire replies request =
     executeWithRetry cfg
       (\<lambda>i. if \<not> tryAcquire i then Inl (RuntimeError ''Order rate limit exceeded'')
            else case validateSymbol (rq_symbol request) of
                   Some e \<Rightarrow> Inl e
                 | None \<Rightarrow> makeRequest ''POST'' ''/fapi/v1/order'' (replies i))"

section \<open>Order manager (trading/execution/order\_manager.cpp)\<close>

record OrderManagerConfig =
  om_max_retry_times :: int
  om_retry_delay_ms :: int
  om_price_deviation_threshold :: real
  om_order_timeout_ms :: int
  om_use_post_only :: bool

record OrderManager =
  om_config :: OrderManagerConfig
  active_orders :: "string \<rightharpoonup> OrderInfo"

text \<open>The four statuses that \<^verbatim>\<open>updateOrderCache\<close> treats as final.\<close>

fun is_terminal :: "OrderStatus \<Rightarrow> bool" where
  "is_terminal FILLED = True"
| "is_terminal CANCELED = True"
| "is_terminal REJECTED = True"
| "is_terminal EXPIRED = True"
| "is_terminal NEW = False"
| "is_terminal PARTIALLY_FILLED = False"
| "is_terminal PENDING_CANCEL = False"

definition updateOrderCache :: "OrderManager \<Rightarrow> OrderInfo \<Rightarrow> OrderManager" where
  "updateOrderCache om order =
     (if oi_status order = FILLED \<or> oi_status order = CANCELED
         \<or> oi_status order = REJECTED \<or> oi_status order = EXPIRED
      then om\<lparr>active_orders := (active_orders om)(oi_order_id order := None)\<rparr>
      else om\<lparr>active_orders := (active_orders om)(oi_order_id order \<mapsto> order)\<rparr>)"

text \<open>
  \<^verbatim>\<open>handleOrderUpdate\<close> updates the cache and then runs the listener registered for the
  order id, which has no access to the cache.
\<close>

definition handleOrderUpdate :: "OrderManager \<Rightarrow> OrderInfo \<Rightarrow> OrderManager" where
  "handleOrderUpdate om update = updateOrderCache om update"

definition splitOrder :: "OrderRequest \<Rightarrow> OrderRequest list" where
  "splitOrder request = [request]"

definition validateOrderRequest :: "OrderRequest \<Rightarrow> bool" where
  "validateOrderRequest request =
     (if rq_symbol request = [] then False
      else if rq_quantity request \<le> 0 then False
      else if rq_type request \<noteq> MARKET \<and> rq_price request \<le> 0 then False
      else True)"

definition calculateSlippagePrice :: "OrderManagerConfig \<Rightarrow> string \<Rightarrow> OrderSide \<Rightarrow> real \<Rightarrow> real" where
  "calculateSlippagePrice cfg symbol side price =
     (if side = BUY then price * (1 + om_price_deviation_threshold cfg)
      else price * (1 - om_price_deviation_threshold cfg))"

text \<open>
  The adapter as \<^verbatim>\<open>placeOrder\<close> sees it: the final outcome of its two calls.
\<close>

record ExchangeApi =
  ex_getMarkPrice :: "string \<Rightarrow> exception + real"
  ex_placeOrder :: "OrderRequest \<Rightarrow> exception + string"

text \<open>
  \<^verbatim>\<open>placeOrder\<close>. \<^verbatim>\<open>splitOrder\<close> returns its argument alone, so the batch branch
  (\<^verbatim>\<open>split_orders.size() > 1\<close>) is never taken and is left out. The cached record starts
  from a default-initialised \<^verbatim>\<open>OrderInfo\<close>, whose remaining fields are whatever \<open>blank\<close>
  holds. The result comes with the new manager state and the requests handed to the
  adapter.
\<close>

definition placeOrder ::
  "ExchangeApi \<Rightarrow> OrderInfo \<Rightarrow> OrderManager \<Rightarrow> OrderRequest
     \<Rightarrow> (exception + string) \<times> OrderManager \<times> OrderRequest list" where
  "placeOrder api blank om request =
     (if \<not> validateOrderRequest request
        then (Inl (InvalidArgument ''Invalid order request''), om, [])
      else
        case ex_getMarkPrice api (rq_symbol request) of
          Inl e \<Rightarrow> (Inl e, om, [])
        | Inr mark_price \<Rightarrow>
            let adjusted_price =
                  calculateSlippagePrice (om_config om) (rq_symbol request) (rq_side request) mark_price;
                adjusted_request =
                  (if rq_type request \<noteq> MARKET
                   then (if om_use_post_only (om_config om)
                         then request\<lparr>rq_price := adjusted_price, rq_type := POST_ONLY\<rparr>
                         else request\<lparr>rq_price := adjusted_price\<rparr>)
                   else request)
            in case ex_placeOrder api adjusted_request of
                 Inl e \<Rightarrow> (Inl e, om, [adjusted_request])
               | Inr order_id \<Rightarrow>
                   (Inr order_id,
                    updateOrderCache om
                      (blank\<lparr>oi_order_id := order_id, oi_symbol := rq_symbol request,
                             oi_side := rq_side request, oi_type := rq_type request,
                             oi_status := NEW, oi_original_quantity := rq_quantity request,
                             oi_price := rq_price adjusted_request\<rparr>),
                    [adjusted_request]))"

text \<open>
  \<^verbatim>\<open>cancelOrder\<close>: on success of the adapter the cached record, if any, gets the status
  \<^verbatim>\<open>CANCELED\<close> in place. A \<^verbatim>\<open>false\<close> or an exception from the adapter gives \<^verbatim>\<open>false\<close>.
\<close>

definition cancelOrder ::
  "RetryConfig \<Rightarrow> (nat \<Rightarrow> exception + unit) \<Rightarrow> OrderManager \<Rightarrow> string \<Rightarrow> string
     \<Rightarrow> bool \<times> OrderManager" where
  "cancelOrder cfg http om symbol orderId =
     (case fst (api_cancelOrder cfg http symbol orderId) of
        Inl e \<Rightarrow> (False, om)
      | Inr ok \<Rightarrow>
          if ok then
            (True,
             case active_orders om orderId of
               Some info \<Rightarrow>
                 om\<lparr>active_orders := (active_orders om)(orderId \<mapsto> info\<lparr>oi_status := CANCELED\<rparr>)\<rparr>
             | None \<Rightarrow> om)
          else (False, om))"

definition getOrderStatus ::
  "RetryConfig \<Rightarrow> (nat \<Rightarrow> exception + OrderInfo) \<Rightarrow> OrderManager \<Rightarrow> string \<Rightarrow> string
     \<Rightarrow> (exception + OrderInfo) \<times> int list" where
  "getOrderStatus cfg http om symbol orderId =
     (case active_orders om orderId of
        Some info \<Rightarrow> (Inr info, [])
      | None \<Rightarrow> api_getOrderStatus cfg http symbol orderId)"

text \<open>
  \<^verbatim>\<open>waitForOrderFill\<close> polls \<^verbatim>\<open>getOrderStatus("", orderId)\<close>. The cache is written by the
  stream thread between polls, so the model takes the manager state seen by poll \<open>k\<close> as
  \<open>oms k\<close>, and the exchange's answers to that poll as \<open>http k\<close>. The clock advances by
  the time slept: 100 ms per round plus the adapter's backoff delays (a negative delay
  sleeps no time). The result comes with the list of the delays slept.
\<close>

definition slept :: "int list \<Rightarrow> int" where
  "slept sl = int (sum_list (map nat sl))"

function waitForOrderFill_from ::
  "RetryConfig \<Rightarrow> (nat \<Rightarrow> nat \<Rightarrow> exception + OrderInfo) \<Rightarrow> (nat \<Rightarrow> OrderManager)
     \<Rightarrow> string \<Rightarrow> int \<Rightarrow> nat \<Rightarrow> int \<Rightarrow> bool \<times> int list"
where
  "waitForOrderFill_from cfg http oms orderId timeout_ms k elapsed =
     (let r = getOrderStatus cfg (http k) (oms k) [] orderId in
      case fst r of
        Inl e \<Rightarrow> (False, snd r)
      | Inr info \<Rightarrow>
          if oi_status info = FILLED then (True, snd r)
          else if oi_status info = CANCELED \<or> oi_status info = REJECTED
                  \<or> oi_status info = EXPIRED then (False, snd r)
          else if elapsed + slept (snd r) \<ge> timeout_ms then (False, snd r)
          else apsnd ((@) (snd r @ [100]))
                 (waitForOrderFill_from cfg http oms orderId timeout_ms (Suc k)
                    (elapsed + slept (snd r) + 100)))"
  by pat_completeness auto
termination
  by (relation "measure (\<lambda>(cfg, http, oms, orderId, timeout_ms, k, elapsed). nat (timeout_ms - elapsed))")
     (auto simp: slept_def)

declare waitForOrderFill_from.simps [simp del]

definition waitForOrderFill ::
  "RetryConfig \<Rightarrow> (nat \<Rightarrow> nat \<Rightarrow> exception + OrderInfo) \<Rightarrow> (nat \<Rightarrow> OrderManager)
     \<Rightarrow> string \<Rightarrow> int \<Rightarrow> bool \<times> int list" where
  "waitForOrderFill cfg http oms orderId timeout_ms =
     waitForOrderFill_from cfg http oms orderId timeout_ms 0 0"

section \<open>Risk manager (trading/risk/risk\_manager.cpp)\<close>

datatype RiskEventType =
  MARGIN_CALL | LIQUIDATION_WARNING | DRAWDOWN_LIMIT_BREACH | DAILY_LOSS_LIMIT_BREACH
| POSITION_LIMIT_BREACH | HIGH_VOLATILITY | FUNDING_RATE_WARNING | TRADE_FREQUENCY_WARNING

record RiskLimits =
  rl_max_position_size :: real
  rl_max_total_positions :: real
  rl_max_leverage :: real
  rl_max_drawdown :: real
  rl_max_daily_loss :: real
  rl_max_hourly_loss :: real
  rl_min_margin_ratio :: real
  rl_max_funding_exposure :: real
  rl_max_trades_per_hour :: int
  rl_price_deviation_threshold :: real

record PositionRisk =
  pr_symbol :: string
  pr_size :: real
  pr_entry_price :: real
  pr_current_price :: real
  pr_unrealized_pnl :: real
  pr_liquidation_price :: real
  pr_margin_ratio :: real
  pr_funding_rate :: real
  pr_funding_fee :: real
  pr_leverage :: int

record RiskEvent =
  re_type :: RiskEventType
  re_symbol :: string
  re_message :: string
  re_threshold_value :: real
  re_current_value :: real
  re_time :: int

text \<open>
  The manager's state. \<^verbatim>\<open>position_risks_\<close> is a \<^verbatim>\<open>std::map\<close> that the code iterates, so
  it is kept as the list of its entries in key order; \<^verbatim>\<open>recent_events_\<close> is a queue, oldest
  first.
\<close>

record RiskManager =
  emergency_mode :: bool
  limits :: RiskLimits
  position_risks :: "(string \<times> PositionRisk) list"
  recent_events :: "RiskEvent list"

text \<open>
  Several private methods of the manager are declared in its header and defined nowhere
  in the sources at hand. They are parameters of the model: a check returns its verdict,
  or \<open>None\<close> when it throws, together with the state it leaves. The same holds for
  \<^verbatim>\<open>shouldTriggerEmergency\<close> and \<^verbatim>\<open>handleEmergencyCase\<close>, which \<^verbatim>\<open>recordRiskEvent\<close> calls outside
  any \<^verbatim>\<open>try\<close>: each may return or throw. \<open>env_callback\<close> is the registered
  \<^verbatim>\<open>risk_event_callback_\<close>, if any: arbitrary code of the user that may change the manager
  and may throw (\<open>Some e\<close>), which \<^verbatim>\<open>recordRiskEvent\<close> catches.
\<close>

record RiskEnv =
  env_calculateRequiredMargin :: "string \<Rightarrow> real \<Rightarrow> RiskManager \<Rightarrow> real option"
  env_checkMarginRequirements :: "string \<Rightarrow> real \<Rightarrow> RiskManager \<Rightarrow> bool option \<times> RiskManager"
  env_checkFundingRateExposure ::
    "string \<Rightarrow> real \<Rightarrow> real \<Rightarrow> RiskManager \<Rightarrow> bool option \<times> RiskManager"
  env_checkVolatility :: "string \<Rightarrow> RiskManager \<Rightarrow> bool option \<times> RiskManager"
  env_checkTradingFrequency :: "string \<Rightarrow> RiskManager \<Rightarrow> bool option \<times> RiskManager"
  env_updateMetrics :: "string \<Rightarrow> RiskManager \<Rightarrow> RiskManager"
  env_callback :: "(RiskEvent \<Rightarrow> RiskManager \<Rightarrow> exception option \<times> RiskManager) option"
  env_shouldTriggerEmergency :: "RiskEventType \<Rightarrow> RiskManager \<Rightarrow> exception + bool"
  env_handleEmergencyCase ::
    "string \<Rightarrow> RiskEvent \<Rightarrow> RiskManager \<Rightarrow> exception option \<times> RiskManager"

text \<open>Clock ticks of \<^verbatim>\<open>std::chrono::system_clock\<close> are nanoseconds.\<close>

definition ticks_per_minute :: int where
  "ticks_per_minute = 60 * 1000000000"

definition ticks_per_hour :: int where
  "ticks_per_hour = 60 * ticks_per_minute"

fun risk_event_message :: "RiskEventType \<Rightarrow> string" where
  "risk_event_message MARGIN_CALL = ''Margin ratio below minimum requirement''"
| "risk_event_message LIQUIDATION_WARNING = ''Position approaching liquidation price''"
| "risk_event_message DRAWDOWN_LIMIT_BREACH = ''Drawdown limit exceeded''"
| "risk_event_message _ = []"

definition cleanupOldEvents :: "int \<Rightarrow> RiskManager \<Rightarrow> RiskManager" where
  "cleanupOldEvents now rm =
     rm\<lparr>recent_events := dropWhile (\<lambda>e. now - re_time e > 24 * ticks_per_hour) (recent_events rm)\<rparr>"

text \<open>
  \<^verbatim>\<open>recordRiskEvent\<close> queues the event, drops the events older than 24 hours, runs the
  callback inside a \<^verbatim>\<open>try\<close>, and then calls the emergency hooks unguarded. The result is
  the exception that leaves the function, if any, and the state.
\<close>

definition recordRiskEvent ::
  "RiskEnv \<Rightarrow> int \<Rightarrow> RiskEventType \<Rightarrow> string \<Rightarrow> real \<Rightarrow> real \<Rightarrow> RiskManager
     \<Rightarrow> exception option \<times> RiskManager" where
  "recordRiskEvent env now type symbol current_value threshold_value rm =
     (let event = \<lparr> re_type = type, re_symbol = symbol, re_message = risk_event_message type,
                     re_threshold_value = threshold_value, re_current_value = current_value,
                     re_time = now \<rparr>;
          rm1 = cleanupOldEvents now (rm\<lparr>recent_events := recent_events rm @ [event]\<rparr>);
          rm2 = (case env_callback env of None \<Rightarrow> rm1 | Some callback \<Rightarrow> snd (callback event rm1))
      in case env_shouldTriggerEmergency env type rm2 of
           Inl e \<Rightarrow> (Some e, rm2)
         | Inr trigger \<Rightarrow>
             if trigger then env_handleEmergencyCase env symbol event rm2 else (None, rm2))"

text \<open>
  \<^verbatim>\<open>checkPositionLimits\<close> has its own \<^verbatim>\<open>try\<close>: after \<^verbatim>\<open>recordRiskEvent\<close> it returns false,
  and so does its \<^verbatim>\<open>catch\<close>.
\<close>

definition checkPositionLimits ::
  "RiskEnv \<Rightarrow> int \<Rightarrow> string \<Rightarrow> real \<Rightarrow> RiskManager \<Rightarrow> bool \<times> RiskManager" where
  "checkPositionLimits env now symbol psize rm =
     (if psize > rl_max_position_size (limits rm)
      then (False, snd (recordRiskEvent env now POSITION_LIMIT_BREACH symbol psize
                          (rl_max_position_size (limits rm)) rm))
      else
        let total_positions =
              foldl (\<lambda>acc (sym, risk). if sym \<noteq> symbol then acc + \<bar>pr_size risk\<bar> else acc)
                psize (position_risks rm)
        in if total_positions > rl_max_total_positions (limits rm)
           then (False, snd (recordRiskEvent env now POSITION_LIMIT_BREACH symbol total_positions
                               (rl_max_total_positions (limits rm)) rm))
           else (True, rm))"

text \<open>A check that threw counts as a refusal: \<^verbatim>\<open>checkNewPosition\<close> catches and returns false.\<close>

definition passed :: "bool option \<Rightarrow> bool" where
  "passed r = (case r of Some b \<Rightarrow> b | None \<Rightarrow> False)"

text \<open>
  \<^verbatim>\<open>checkNewPosition\<close>. The emergency-mode branch comes before the \<^verbatim>\<open>try\<close>, so an exception
  of \<^verbatim>\<open>recordRiskEvent\<close> there leaves the function (\<open>Inl\<close>); everything after it is inside
  the \<^verbatim>\<open>try\<close>, whose \<^verbatim>\<open>catch\<close> returns false.
\<close>

definition checkNewPosition ::
  "RiskEnv \<Rightarrow> int \<Rightarrow> RiskManager \<Rightarrow> string \<Rightarrow> real \<Rightarrow> real
     \<Rightarrow> (exception + bool) \<times> RiskManager" where
  "checkNewPosition env now rm symbol psize funding_rate =
     (if emergency_mode rm
      then (let r = recordRiskEvent env now POSITION_LIMIT_BREACH symbol psize 0 rm in
            case fst r of
              Some e \<Rightarrow> (Inl e, snd r)
            | None \<Rightarrow> (Inr False, snd r))
      else
        let (ok1, rm1) = checkPositionLimits env now symbol psize rm in
        if \<not> ok1 then (Inr False, rm1)
        else case env_calculateRequiredMargin env symbol psize rm1 of
          None \<Rightarrow> (Inr False, rm1)
        | Some required_margin \<Rightarrow>
            let (ok2, rm2) = env_checkMarginRequirements env symbol required_margin rm1 in
            if \<not> passed ok2 then (Inr False, rm2)
            else let (ok3, rm3) = env_checkFundingRateExposure env symbol funding_rate psize rm2 in
            if \<not> passed ok3 then (Inr False, rm3)
            else let (ok4, rm4) = env_checkVolatility env symbol rm3 in
            if \<not> passed ok4 then (Inr False, rm4)
            else let (ok5, rm5) = env_checkTradingFrequency env symbol rm4 in
            if \<not> passed ok5 then (Inr False, rm5)
            else (Inr True, env_updateMetrics env symbol rm5))"

section \<open>Funding arbitrage engine (strategy/engine/funding\_arbitrage\_engine.cpp)\<close>

record InstrumentInfo =
  ii_symbol :: string
  ii_spot_price :: real
  ii_futures_price :: real
  ii_funding_rate :: real
  ii_funding_fee :: real
  ii_next_funding_time :: int
  ii_volume_24h :: real
  ii_liquidity_score :: real
  ii_bid_ask_spread :: real
  ii_basis :: real

record FundingArbitrageParams =
  top_n_instruments :: int
  min_basis_ratio :: real
  min_funding_rate :: real
  pre_funding_minutes :: int
  position_size_usd :: real
  max_position_per_symbol :: real
  max_total_position :: real
  min_liquidity_score :: real
  max_spread_ratio :: real
  min_volume_usd :: real
  min_market_impact_minutes :: int
  use_twap :: bool
  twap_intervals :: int
  execution_timeout_seconds :: int
  max_slippage :: real
  stop_loss_ratio :: real
  profit_take_ratio :: real
  max_drawdown :: real
  position_imbalance_tolerance :: real

definition default_params :: FundingArbitrageParams where
  "default_params =
     \<lparr> top_n_instruments = 5, min_basis_ratio = 8 / 10000, min_funding_rate = 1 / 10000,
       pre_funding_minutes = 60, position_size_usd = 1000, max_position_per_symbol = 1 / 10,
       max_total_position = 1 / 2, min_liquidity_score = 7 / 10, max_spread_ratio = 1 / 1000,
       min_volume_usd = 1000000, min_market_impact_minutes = 5, use_twap = True,
       twap_intervals = 3, execution_timeout_seconds = 30, max_slippage = 1 / 1000,
       stop_loss_ratio = 5 / 1000, profit_take_ratio = 3 / 1000, max_drawdown = 2 / 100,
       position_imbalance_tolerance = 1 / 100 \<rparr>"

text \<open>
  The engine's state, with the fields the engine's code reads and writes
  (\<^verbatim>\<open>state_.max_drawdown\<close> and \<^verbatim>\<open>state_.hourly_pnl_history\<close> among them).
\<close>

record FundingArbitrageState =
  is_pre_funding_window :: bool
  active_instruments :: "InstrumentInfo list"
  spot_positions :: "string \<rightharpoonup> real"
  futures_positions :: "string \<rightharpoonup> real"
  total_pnl :: real
  current_drawdown :: real
  st_max_drawdown :: real
  hourly_pnl_history :: "real list"

subsection \<open>Trading window\<close>

text \<open>\<^verbatim>\<open>std::chrono::duration_cast<minutes>\<close> of a tick count truncates toward zero.\<close>

definition duration_cast_minutes :: "int \<Rightarrow> int" where
  "duration_cast_minutes d =
     (if d < 0 then - ((- d) div ticks_per_minute) else d div ticks_per_minute)"

fun checkTradingWindow_loop :: "FundingArbitrageParams \<Rightarrow> int \<Rightarrow> InstrumentInfo list \<Rightarrow> bool" where
  "checkTradingWindow_loop params now [] = False"
| "checkTradingWindow_loop params now (instrument # rest) =
     (let time_to_funding = duration_cast_minutes (ii_next_funding_time instrument - now) in
      if time_to_funding \<le> pre_funding_minutes params \<and> time_to_funding > 0 then True
      else checkTradingWindow_loop params now rest)"

definition checkTradingWindow :: "FundingArbitrageParams \<Rightarrow> FundingArbitrageState \<Rightarrow> int \<Rightarrow> bool" where
  "checkTradingWindow params st now = checkTradingWindow_loop params now (active_instruments st)"

subsection \<open>Order execution calls\<close>

text \<open>
  The engine trades through \<^verbatim>\<open>executeTwapOrder(symbol, size, is_spot, is_buy)\<close> and
  \<^verbatim>\<open>executeSingleOrder(symbol, size, is_spot, is_buy)\<close>. The model records each call with
  its arguments; what the exchange makes of it is the parameter \<open>exec\<close>: \<open>None\<close> when the
  call returns, \<open>Some e\<close> when it throws.
\<close>

datatype ExecCall =
  TwapOrder string real bool bool
| SingleOrder string real bool bool

text \<open>\<^verbatim>\<open>std::map::operator[]\<close>: the value at the key, inserting 0 when the key is absent.\<close>

definition map_at :: "(string \<rightharpoonup> real) \<Rightarrow> string \<Rightarrow> real \<times> (string \<rightharpoonup> real)" where
  "map_at m k = (case m k of Some v \<Rightarrow> (v, m) | None \<Rightarrow> (0, m(k \<mapsto> 0)))"

fun run_calls :: "(ExecCall \<Rightarrow> exception option) \<Rightarrow> ExecCall list \<Rightarrow> exception option \<times> ExecCall list" where
  "run_calls exec [] = (None, [])"
| "run_calls exec (c # cs) =
     (case exec c of
        Some e \<Rightarrow> (Some e, [c])
      | None \<Rightarrow> apsnd ((#) c) (run_calls exec cs))"

subsection \<open>Rebalancing\<close>

text \<open>
  \<^verbatim>\<open>balancePositions\<close> catches what the order call throws, so it always returns; the result
  is the state (reading the two maps may insert a zero entry) and the calls made.
\<close>

definition balancePositions ::
  "FundingArbitrageParams \<Rightarrow> FundingArbitrageState \<Rightarrow> string \<Rightarrow> FundingArbitrageState \<times> ExecCall list" where
  "balancePositions params st symbol =
     (let (spot_position, sp) = map_at (spot_positions st) symbol;
          (futures_position, fp) = map_at (futures_positions st) symbol;
          st1 = st\<lparr>spot_positions := sp, futures_positions := fp\<rparr>;
          imbalance = \<bar>spot_position + futures_position\<bar>
      in if imbalance > position_imbalance_tolerance params then
           (let adjustment_size = imbalance / 2 in
            if spot_position > - futures_position
            then (st1, [SingleOrder symbol adjustment_size True False])
            else (st1, [SingleOrder symbol adjustment_size False True]))
         else (st1, []))"

subsection \<open>Closing\<close>

definition close_symbol ::
  "FundingArbitrageParams \<Rightarrow> (ExecCall \<Rightarrow> exception option) \<Rightarrow> FundingArbitrageState \<Rightarrow> string
     \<Rightarrow> exception option \<times> FundingArbitrageState \<times> ExecCall list" where
  "close_symbol params exec st sy =
     (let (spot_size, sp) = map_at (spot_positions st) sy;
          (futures_size, fp) = map_at (futures_positions st) sy;
          st1 = st\<lparr>spot_positions := sp, futures_positions := fp\<rparr>
      in if \<bar>spot_size\<bar> > 0 \<or> \<bar>futures_size\<bar> > 0 then
           (let calls =
                  (if use_twap params then
                     (if spot_size > 0 then [TwapOrder sy \<bar>spot_size\<bar> True False] else [])
                     @ (if futures_size > 0 then [TwapOrder sy \<bar>futures_size\<bar> False False] else [])
                   else
                     (if spot_size > 0 then [SingleOrder sy \<bar>spot_size\<bar> True False] else [])
                     @ (if futures_size > 0 then [SingleOrder sy \<bar>futures_size\<bar> False False] else []));
                r = run_calls exec calls
            in case fst r of
                 Some e \<Rightarrow> (Some e, st1, snd r)
               | None \<Rightarrow>
                   (None,
                    st1\<lparr>spot_positions := sp(sy := None), futures_positions := fp(sy := None)\<rparr>,
                    snd r))
         else (None, st1, []))"

fun close_symbols ::
  "FundingArbitrageParams \<Rightarrow> (ExecCall \<Rightarrow> exception option) \<Rightarrow> FundingArbitrageState \<Rightarrow> string list
     \<Rightarrow> exception option \<times> FundingArbitrageState \<times> ExecCall list" where
  "close_symbols params exec st [] = (None, st, [])"
| "close_symbols params exec st (sy # sys) =
     (case close_symbol params exec st sy of
        (Some e, st1, cs) \<Rightarrow> (Some e, st1, cs)
      | (None, st1, cs) \<Rightarrow>
          (case close_symbols params exec st1 sys of
             (r, st2, cs2) \<Rightarrow> (r, st2, cs @ cs2)))"

text \<open>
  \<^verbatim>\<open>closePositions(symbol)\<close>: an empty symbol closes every symbol of the spot map, in key
  order (a \<^verbatim>\<open>std::map\<close> is finite, and for a finite map \<open>sorted_list_of_set (dom m)\<close> is
  the list of its keys in ascending order). The exception, if any, is rethrown to the
  caller.
\<close>

definition closePositions ::
  "FundingArbitrageParams \<Rightarrow> (ExecCall \<Rightarrow> exception option) \<Rightarrow> FundingArbitrageState \<Rightarrow> string
     \<Rightarrow> exception option \<times> FundingArbitrageState \<times> ExecCall list" where
  "closePositions params exec st symbol =
     close_symbols params exec st
       (if symbol = [] then sorted_list_of_set (dom (spot_positions st)) else [symbol])"

subsection \<open>Drawdown\<close>

datatype AlertLevel = INFO | WARNING | ERROR | CRITICAL

datatype AlertType =
  SYSTEM_ERROR | CONNECTION_LOST | HIGH_LATENCY | POSITION_RISK | MARGIN_RISK
| LIQUIDATION_RISK | DRAWDOWN_WARNING | PNL_WARNING | ALERT_FUNDING_RATE_WARNING
| TRADE_FREQUENCY_HIGH

record Alert =
  al_type :: AlertType
  al_level :: AlertLevel
  al_message :: string
  al_current_value :: real
  al_threshold :: real

text \<open>\<^verbatim>\<open>*std::max_element(begin, end)\<close> of a non-empty sequence.\<close>

definition max_element :: "real list \<Rightarrow> real" where
  "max_element xs = foldl max (hd xs) (tl xs)"

text \<open>
  \<^verbatim>\<open>updateDrawdown\<close> returns the new state and the alerts it sends. The state is written
  before the alert goes out, and an exception of the alert manager is caught.
\<close>

definition updateDrawdown ::
  "FundingArbitrageParams \<Rightarrow> FundingArbitrageState \<Rightarrow> FundingArbitrageState \<times> Alert list" where
  "updateDrawdown params st =
     (if hourly_pnl_history st = [] then (st, [])
      else
        let peak = max_element (hourly_pnl_history st);
            st1 = (if peak > 0 then st\<lparr>current_drawdown := (peak - total_pnl st) / peak\<rparr> else st)
        in if current_drawdown st1 > st_max_drawdown st1 then
             (let st2 = st1\<lparr>st_max_drawdown := current_drawdown st1\<rparr> in
              (st2,
               if st_max_drawdown st2 > max_drawdown params
               then [\<lparr> al_type = DRAWDOWN_WARNING, al_level = WARNING,
                       al_message = ''Maximum drawdown exceeded'',
                       al_current_value = st_max_drawdown st2,
                       al_threshold = max_drawdown params \<rparr>]
               else []))
           else (st1, []))"

section \<open>Properties\<close>

subsection \<open>Enumerations and their strings\<close>

lemma stringToOrderSide_unknown:
  assumes "str \<notin> range orderSideToString"
  shows "stringToOrderSide str = Inl (InvalidArgument (''Invalid order side: '' @ str))"
proof -
  have "str \<noteq> orderSideToString BUY" "str \<noteq> orderSideToString SELL"
    using assms by blast+
  then show ?thesis by (simp add: stringToOrderSide_def)
qed

lemma stringToOrderType_unknown:
  assumes "str \<notin> range orderTypeToString"
  shows "stringToOrderType str = Inl (InvalidArgument (''Invalid order type: '' @ str))"
proof -
  have "str \<noteq> orderTypeToString MARKET" "str \<noteq> orderTypeToString LIMIT"
    "str \<noteq> orderTypeToString POST_ONLY" "str \<noteq> orderTypeToString STOP_MARKET"
    "str \<noteq> orderTypeToString STOP_LIMIT" "str \<noteq> orderTypeToString TAKE_PROFIT"
    "str \<noteq> orderTypeToString LIQUIDATION"
    using assms by blast+
  then show ?thesis by (simp add: stringToOrderType_def)
qed

lemma stringToOrderStatus_unknown:
  assumes "str \<notin> range orderStatusToString"
  shows "stringToOrderStatus str = Inl (InvalidArgument (''Invalid order status: '' @ str))"
proof -
  have "str \<noteq> orderStatusToString NEW" "str \<noteq> orderStatusToString PARTIALLY_FILLED"
    "str \<noteq> orderStatusToString FILLED" "str \<noteq> orderStatusToString CANCELED"
    "str \<noteq> orderStatusToString REJECTED" "str \<noteq> orderStatusToString EXPIRED"
    "str \<noteq> orderStatusToString PENDING_CANCEL"
    using assms by blast+
  then show ?thesis by (simp add: stringToOrderStatus_def)
qed

lemma stringToOrderSide_roundtrip: "stringToOrderSide (orderSideToString s) = Inr s"
  by (cases s) (simp_all add: stringToOrderSide_def)

lemma stringToOrderType_roundtrip: "stringToOrderType (orderTypeToString t) = Inr t"
  by (cases t) (simp_all add: stringToOrderType_def)

lemma stringToOrderStatus_roundtrip: "stringToOrderStatus (orderStatusToString st) = Inr st"
  by (cases st) (simp_all add: stringToOrderStatus_def)

lemma string_to_enum_roundtrip:
  assumes "kind_of v \<in> {KOrderSide, KOrderType, KOrderStatus}"
  shows "\<exists>f. string_to_enum (kind_of v) = Some f \<and> f (enum_to_string v) = Inr v"
  using assms
  by (cases v)
     (simp_all add: stringToOrderSide_roundtrip stringToOrderType_roundtrip
        stringToOrderStatus_roundtrip)

lemma string_to_enum_None:
  "(string_to_enum k = None) = (k \<in> {KTimeInForce, KPositionSide, KMarginType})"
  by (cases k) simp_all

text \<open>
  Claim C9, as the code has it. Order side, order type and order status round-trip
  through their strings for every value, and a string that names no value of the
  enumeration makes the reverse conversion throw \<^verbatim>\<open>std::invalid_argument\<close>. For time in
  force, position side and margin type the header has the conversion to a string only, so
  there is no way back to go.
\<close>

theorem enum_string_roundtrip:
  "stringToOrderSide (orderSideToString s) = Inr s
   \<and> stringToOrderType (orderTypeToString t) = Inr t
   \<and> stringToOrderStatus (orderStatusToString st) = Inr st
   \<and> (str \<notin> range orderSideToString \<longrightarrow>
        stringToOrderSide str = Inl (InvalidArgument (''Invalid order side: '' @ str)))
   \<and> (str \<notin> range orderTypeToString \<longrightarrow>
        stringToOrderType str = Inl (InvalidArgument (''Invalid order type: '' @ str)))
   \<and> (str \<notin> range orderStatusToString \<longrightarrow>
        stringToOrderStatus str = Inl (InvalidArgument (''Invalid order status: '' @ str)))
   \<and> (kind_of v \<in> {KOrderSide, KOrderType, KOrderStatus} \<longrightarrow>
        (\<exists>f. string_to_enum (kind_of v) = Some f \<and> f (enum_to_string v) = Inr v))
   \<and> (string_to_enum k = None) = (k \<in> {KTimeInForce, KPositionSide, KMarginType})"
proof (intro conjI impI)
  show "stringToOrderSide (orderSideToString s) = Inr s"
    by (rule stringToOrderSide_roundtrip)
  show "stringToOrderType (orderTypeToString t) = Inr t"
    by (rule stringToOrderType_roundtrip)
  show "stringToOrderStatus (orderStatusToString st) = Inr st"
    by (rule stringToOrderStatus_roundtrip)
  show "stringToOrderSide str = Inl (InvalidArgument (''Invalid order side: '' @ str))"
    if "str \<notin> range orderSideToString"
    using that by (rule stringToOrderSide_unknown)
  show "stringToOrderType str = Inl (InvalidArgument (''Invalid order type: '' @ str))"
    if "str \<notin> range orderTypeToString"
    using that by (rule stringToOrderType_unknown)
  show "stringToOrderStatus str = Inl (InvalidArgument (''Invalid order status: '' @ str))"
    if "str \<notin> range orderStatusToString"
    using that by (rule stringToOrderStatus_unknown)
  show "\<exists>f. string_to_enum (kind_of v) = Some f \<and> f (enum_to_string v) = Inr v"
    if "kind_of v \<in> {KOrderSide, KOrderType, KOrderStatus}"
    using that by (rule string_to_enum_roundtrip)
  show "(string_to_enum k = None) = (k \<in> {KTimeInForce, KPositionSide, KMarginType})"
    by (rule string_to_enum_None)
qed

theorem enum_string_roundtrip_witness:
  "''HOLD'' \<notin> range orderSideToString
   \<and> stringToOrderSide ''HOLD'' = Inl (InvalidArgument ''Invalid order side: HOLD'')
   \<and> ''HOLD'' \<notin> range orderTypeToString
   \<and> stringToOrderType ''HOLD'' = Inl (InvalidArgument ''Invalid order type: HOLD'')
   \<and> ''HOLD'' \<notin> range orderStatusToString
   \<and> stringToOrderStatus ''HOLD'' = Inl (InvalidArgument ''Invalid order status: HOLD'')
   \<and> kind_of (VOrderType STOP_LIMIT) \<in> {KOrderSide, KOrderType, KOrderStatus}
   \<and> (\<exists>f. string_to_enum (kind_of (VOrderType STOP_LIMIT)) = Some f
          \<and> f (enum_to_string (VOrderType STOP_LIMIT)) = Inr (VOrderType STOP_LIMIT))"
proof -
  have 1: "''HOLD'' \<notin> range orderSideToString"
  proof
    assume "''HOLD'' \<in> range orderSideToString"
    then obtain x where "''HOLD'' = orderSideToString x" by blast
    then show False by (cases x) simp_all
  qed
  have 2: "''HOLD'' \<notin> range orderTypeToString"
  proof
    assume "''HOLD'' \<in> range orderTypeToString"
    then obtain x where "''HOLD'' = orderTypeToString x" by blast
    then show False by (cases x) simp_all
  qed
  have 3: "''HOLD'' \<notin> range orderStatusToString"
  proof
    assume "''HOLD'' \<in> range orderStatusToString"
    then obtain x where "''HOLD'' = orderStatusToString x" by blast
    then show False by (cases x) simp_all
  qed
  have 4: "kind_of (VOrderType STOP_LIMIT) \<in> {KOrderSide, KOrderType, KOrderStatus}" by simp
  from 1 2 3 4 enum_string_roundtrip[of BUY MARKET NEW "''HOLD''" "VOrderType STOP_LIMIT" KOrderSide]
  show ?thesis by simp
qed

text \<open>
  Against claim C9 as stated: for a time in force, a position side and a margin type there
  is no conversion from the string in the header, so the value does not come back from
  its string.
\<close>

theorem enum_roundtrip_missing_counterexample:
  "\<not> (\<exists>f. string_to_enum (kind_of (VTimeInForce GTC)) = Some f
            \<and> f (enum_to_string (VTimeInForce GTC)) = Inr (VTimeInForce GTC))
   \<and> \<not> (\<exists>f. string_to_enum (kind_of (VPositionSide LONG)) = Some f
            \<and> f (enum_to_string (VPositionSide LONG)) = Inr (VPositionSide LONG))
   \<and> \<not> (\<exists>f. string_to_enum (kind_of (VMarginType ISOLATED)) = Some f
            \<and> f (enum_to_string (VMarginType ISOLATED)) = Inr (VMarginType ISOLATED))"
  by simp


subsection \<open>Retry policy of the adapter\<close>

lemma backoff_delay_shift:
  "map (\<lambda>i. (next_delay cfg ^^ i) d) [0..<Suc k] = d # map (\<lambda>i. (next_delay cfg ^^ i) (next_delay cfg d)) [0..<k]"
proof -
  have "[0..<Suc k] = 0 # map Suc [0..<k]"
    by (simp add: upt_conv_Cons map_Suc_upt del: upt_Suc)
  then show ?thesis
    by (simp add: funpow_swap1 del: upt_Suc)
qed

lemma executeWithRetry_from_run:
  assumes "\<forall>i<k. \<exists>e. func (n + i) = Inl e \<and> extractStatusCode (what e) \<in> retriable_status_codes cfg"
    and "\<forall>i<k. int (n + i) < max_retries cfg"
    and "(\<exists>v. func (n + k) = Inr v)
         \<or> (\<exists>e. func (n + k) = Inl e \<and> extractStatusCode (what e) \<notin> retriable_status_codes cfg)
         \<or> max_retries cfg \<le> int (n + k)"
  shows "executeWithRetry_from cfg func (int n) d
           = (func (n + k), map (\<lambda>i. (next_delay cfg ^^ i) d) [0..<k])"
  using assms
proof (induction k arbitrary: n d)
  case 0
  show ?case
  proof (cases "func n")
    case (Inr v)
    then show ?thesis by (subst executeWithRetry_from.simps) simp
  next
    case (Inl e)
    with "0.prems"(3) have "\<not> shouldRetry cfg (extractStatusCode (what e)) (int n)"
      by (auto simp: shouldRetry_def)
    with Inl show ?thesis by (subst executeWithRetry_from.simps) simp
  qed
next
  case (Suc k)
  from Suc.prems(1) obtain e where e: "func n = Inl e"
    "extractStatusCode (what e) \<in> retriable_status_codes cfg"
    by (metis add.right_neutral zero_less_Suc)
  from Suc.prems(2) have lt: "int n < max_retries cfg"
    by (metis add.right_neutral zero_less_Suc)
  have retry: "shouldRetry cfg (extractStatusCode (what e)) (int n)"
    using e(2) lt by (simp add: shouldRetry_def)
  have p1: "\<forall>i<k. \<exists>e. func (Suc n + i) = Inl e \<and> extractStatusCode (what e) \<in> retriable_status_codes cfg"
    using Suc.prems(1) by (metis Suc_less_eq add_Suc_shift)
  have p2: "\<forall>i<k. int (Suc n + i) < max_retries cfg"
    using Suc.prems(2) by (metis Suc_less_eq add_Suc_shift)
  have p3: "(\<exists>v. func (Suc n + k) = Inr v)
         \<or> (\<exists>e. func (Suc n + k) = Inl e \<and> extractStatusCode (what e) \<notin> retriable_status_codes cfg)
         \<or> max_retries cfg \<le> int (Suc n + k)"
    using Suc.prems(3) by simp
  have ih: "executeWithRetry_from cfg func (int (Suc n)) (next_delay cfg d)
           = (func (Suc n + k), map (\<lambda>i. (next_delay cfg ^^ i) (next_delay cfg d)) [0..<k])"
    by (rule Suc.IH[OF p1 p2 p3])
  have step: "executeWithRetry_from cfg func (int n) d
      = apsnd ((#) d) (executeWithRetry_from cfg func (int n + 1) (next_delay cfg d))"
    using e(1) retry by (subst executeWithRetry_from.simps) simp
  have "int n + 1 = int (Suc n)" by simp
  with step ih show ?case
    by (simp only: backoff_delay_shift apsnd_conv add_Suc_right add_Suc)
qed

text \<open>
  The retry loop by itself. Let invocation \<open>k\<close> be the first that succeeds, or fails with
  an error text whose extracted code is outside the retriable set, or comes when
  \<open>max_retries\<close> retries are used up, every earlier invocation having failed with a text whose
  extracted code is retriable. Then \<^verbatim>\<open>executeWithRetry\<close> makes exactly the invocations
  \<open>0..k\<close> and returns the outcome of invocation \<open>k\<close> unchanged. Before retry \<open>i + 1\<close> it
  sleeps \<open>backoff_delay cfg i\<close>.
\<close>

lemma executeWithRetry_outcome:
  assumes "\<forall>i<k. \<exists>e. func i = Inl e \<and> extractStatusCode (what e) \<in> retriable_status_codes cfg"
    and "k = 0 \<or> int k \<le> max_retries cfg"
    and "(\<exists>v. func k = Inr v)
         \<or> (\<exists>e. func k = Inl e \<and> extractStatusCode (what e) \<notin> retriable_status_codes cfg)
         \<or> max_retries cfg \<le> int k"
  shows "executeWithRetry cfg func = (func k, map (backoff_delay cfg) [0..<k])
         \<and> backoff_delay cfg 0 = retry_delay_ms cfg
         \<and> (\<forall>i. backoff_delay cfg (Suc i) = next_delay cfg (backoff_delay cfg i))"
proof -
  have a: "\<forall>i<k. \<exists>e. func (0 + i) = Inl e \<and> extractStatusCode (what e) \<in> retriable_status_codes cfg"
    using assms(1) by simp
  have b: "\<forall>i<k. int (0 + i) < max_retries cfg"
    using assms(2) by auto
  have c: "(\<exists>v. func (0 + k) = Inr v)
         \<or> (\<exists>e. func (0 + k) = Inl e \<and> extractStatusCode (what e) \<notin> retriable_status_codes cfg)
         \<or> max_retries cfg \<le> int (0 + k)"
    using assms(3) by simp
  have "executeWithRetry_from cfg func (int 0) (retry_delay_ms cfg)
           = (func (0 + k), map (\<lambda>i. (next_delay cfg ^^ i) (retry_delay_ms cfg)) [0..<k])"
    by (rule executeWithRetry_from_run[OF a b c])
  then have 1: "executeWithRetry cfg func = (func k, map (backoff_delay cfg) [0..<k])"
    by (simp add: executeWithRetry_def backoff_delay_def)
  have 2: "backoff_delay cfg 0 = retry_delay_ms cfg"
    by (simp add: backoff_delay_def)
  have 3: "\<forall>i. backoff_delay cfg (Suc i) = next_delay cfg (backoff_delay cfg i)"
    by (simp add: backoff_delay_def)
  from 1 2 3 show ?thesis by blast
qed

lemma es429: "extractStatusCode ''HTTP 429 Too Many Requests'' = 429"
  by (simp add: extractStatusCode_def find_str_def substr_def stoi_def isspace_def isdigit_def digits_value_def)

lemma es400: "extractStatusCode ''HTTP 400 Bad Request'' = 400"
  by (simp add: extractStatusCode_def find_str_def substr_def stoi_def isspace_def isdigit_def digits_value_def)

text \<open>
  The delay: an integral multiplier multiplies it exactly while the product fits an
  \<^verbatim>\<open>int\<close>; beyond that the delay becomes \<^verbatim>\<open>INT_MIN\<close>; and a product that is not a
  \<^verbatim>\<open>double\<close> is rounded before it is cut (100 times the \<^verbatim>\<open>double\<close> nearest 0.57 gives 56).
\<close>

lemma round_half_even_of_int: "round_half_even (of_int k) = k"
  by (simp add: round_half_even_def Let_def)

lemma round_to_double_of_int:
  assumes "\<bar>n\<bar> < 2 ^ 53"
  shows "round_to_double (of_int n) = of_int n"
proof (cases "n = 0")
  case True
  then show ?thesis by (simp add: round_to_double_def)
next
  case False
  define e where "e = \<lfloor>log 2 \<bar>real_of_int n\<bar>\<rfloor>"
  have "1 \<le> \<bar>n\<bar>" using False by simp
  then have "real_of_int 1 \<le> real_of_int \<bar>n\<bar>" by (simp only: of_int_le_iff)
  then have pos: "1 \<le> \<bar>real_of_int n\<bar>" by simp
  have e0: "0 \<le> e"
    unfolding e_def using pos by (simp add: zero_le_log_cancel_iff)
  have "\<bar>real_of_int n\<bar> < 2 ^ 53"
    using assms by (metis of_int_abs of_int_less_numeral_power_cancel_iff)
  then have "log 2 \<bar>real_of_int n\<bar> < 53"
    using pos by (simp add: log_less_iff powr_realpow)
  then have e52: "e \<le> 52"
    unfolding e_def by (simp add: floor_le_iff)
  define m where "m = nat (52 - e)"
  have ulp: "(2::real) powr (of_int e - 52) = 1 / 2 ^ m"
  proof -
    have "of_int e - 52 = - real m" using e52 by (simp add: m_def)
    then show ?thesis by (simp add: powr_minus powr_realpow divide_simps)
  qed
  have "real_of_int n / (1 / 2 ^ m) = of_int (n * 2 ^ m)" by simp
  then have "round_half_even (real_of_int n / (1 / 2 ^ m)) = n * 2 ^ m"
    by (simp only: round_half_even_of_int)
  then show ?thesis
    using False by (simp add: round_to_double_def Let_def e_def[symmetric] ulp)
qed

lemma double_to_int_of_int:
  assumes "- 2147483649 < p" and "p < 2147483648"
  shows "double_to_int (of_int p) = p"
proof -
  have "real_of_int (- 2147483649) < real_of_int p" "real_of_int p < real_of_int 2147483648"
    using assms by (simp_all only: of_int_less_iff)
  then have "- 2147483649 < real_of_int p" "real_of_int p < 2147483648"
    by simp_all
  then show ?thesis by (simp add: double_to_int_def)
qed

lemma next_delay_integral:
  assumes "backoff_multiplier cfg = of_int m" and "\<bar>d * m\<bar> < 2147483648"
  shows "next_delay cfg d = d * m"
proof -
  have "\<bar>d * m\<bar> < 2 ^ 53" using assms(2) by simp
  then have r: "round_to_double (of_int (d * m)) = of_int (d * m)"
    by (rule round_to_double_of_int)
  have "- 2147483649 < d * m" "d * m < 2147483648"
    using assms(2) by (simp_all add: abs_less_iff)
  then have c: "double_to_int (of_int (d * m)) = d * m"
    by (rule double_to_int_of_int)
  have "real_of_int d * backoff_multiplier cfg = of_int (d * m)"
    using assms(1) by simp
  with r c show ?thesis by (simp only: next_delay_def)
qed

lemma next_delay_overflow:
  "next_delay (init_retry_config 2 2000000000 2) 2000000000 = - 2147483648"
proof -
  have "round_to_double (of_int 4000000000) = of_int 4000000000"
    by (rule round_to_double_of_int) simp
  then have "round_to_double 4000000000 = 4000000000" by simp
  then show ?thesis
    by (simp add: next_delay_def init_retry_config_def double_to_int_def)
qed

lemma default_delays: "map (backoff_delay default_retry_config) [0..<3] = [1000, 2000, 4000]"
proof -
  have m: "backoff_multiplier default_retry_config = of_int 2"
    by (simp add: default_retry_config_def init_retry_config_def)
  have 1: "next_delay default_retry_config 1000 = 2000"
    using next_delay_integral[OF m, of 1000] by simp
  have 2: "next_delay default_retry_config 2000 = 4000"
    using next_delay_integral[OF m, of 2000] by simp
  have "[0..<3] = [0, Suc 0, Suc (Suc 0)]" by (simp add: upt_rec numeral_3_eq_3)
  moreover have "retry_delay_ms default_retry_config = 1000"
    by (simp add: default_retry_config_def init_retry_config_def)
  ultimately show ?thesis
    by (simp add: backoff_delay_def 1 2)
qed


lemma next_delay_rounds:
  "next_delay (init_retry_config 3 100 (5134103575202365 / 9007199254740992)) 100 = 56"
proof -
  define x :: real where "x = 100 * (5134103575202365 / 9007199254740992)"
  have b: "2 powr 5 \<le> x" "x < 2 powr 6"
    by (simp_all add: x_def powr_numeral)
  have xpos: "0 < x" by (simp add: x_def)
  have e0: "\<lfloor>log 2 x\<rfloor> = 5"
  proof -
    have "5 \<le> log 2 x" using b(1) xpos by (simp add: le_log_iff)
    moreover have "log 2 x < 6" using b(2) xpos by (simp add: log_less_iff)
    ultimately show ?thesis by (simp add: floor_eq_iff)
  qed
  then have e: "\<lfloor>log 2 \<bar>x\<bar>\<rfloor> = 5" using xpos by simp
  have ulp: "(2::real) powr (of_int 5 - 52) = 1 / 2 ^ 47"
  proof -
    have "(of_int 5 - 52 :: real) = - real (47::nat)" by simp
    then show ?thesis by (simp only: powr_minus powr_realpow zero_less_numeral inverse_eq_divide)
  qed
  have q: "x / (1 / 2 ^ 47) = 128352589380059125 / 16" by (simp add: x_def)
  have f: "\<lfloor>128352589380059125 / 16 :: real\<rfloor> = 8022036836253695" by simp
  have rd: "round_half_even (128352589380059125 / 16) = 8022036836253695"
    by (simp add: round_half_even_def Let_def f)
  have ulp': "(2::real) powr (real_of_int \<lfloor>log 2 x\<rfloor> - 52) = 1 / 2 ^ 47"
    using ulp by (simp only: e0)
  have "round_to_double x
          = of_int (round_half_even (x / 2 powr (real_of_int \<lfloor>log 2 x\<rfloor> - 52)))
            * 2 powr (real_of_int \<lfloor>log 2 x\<rfloor> - 52)"
    using xpos by (simp add: round_to_double_def Let_def)
  then have "round_to_double x = of_int 8022036836253695 * (1 / 2 ^ 47)"
    by (simp only: ulp' q rd)
  then have "round_to_double x = 8022036836253695 / 140737488355328"
    by simp
  then have "double_to_int (round_to_double x) = 56"
    by (simp only: double_to_int_def) simp
  then show ?thesis
    by (simp add: next_delay_def init_retry_config_def x_def)
qed


lemma executeWithRetry_outcome_example:
  "executeWithRetry default_retry_config (\<lambda>i. Inl (RuntimeError ''HTTP 429 Too Many Requests'') :: exception + string)
     = (Inl (RuntimeError ''HTTP 429 Too Many Requests''), [1000, 2000, 4000])
   \<and> executeWithRetry default_retry_config (\<lambda>i. Inl (RuntimeError ''HTTP 400 Bad Request'') :: exception + string)
     = (Inl (RuntimeError ''HTTP 400 Bad Request''), [])"
proof -
  let ?f = "\<lambda>i::nat. Inl (RuntimeError ''HTTP 429 Too Many Requests'') :: exception + string"
  let ?g = "\<lambda>i::nat. Inl (RuntimeError ''HTTP 400 Bad Request'') :: exception + string"
  have h1: "\<forall>i<3. \<exists>e. ?f i = Inl e \<and> extractStatusCode (what e) \<in> retriable_status_codes default_retry_config"
    by (simp add: es429 default_retry_config_def init_retry_config_def)
  have h2: "(3::nat) = 0 \<or> int 3 \<le> max_retries default_retry_config"
    by (simp add: default_retry_config_def init_retry_config_def)
  have h3: "(\<exists>v. ?f 3 = Inr v)
         \<or> (\<exists>e. ?f 3 = Inl e \<and> extractStatusCode (what e) \<notin> retriable_status_codes default_retry_config)
         \<or> max_retries default_retry_config \<le> int 3"
    by (simp add: default_retry_config_def init_retry_config_def)
  have g1: "\<forall>i<0. \<exists>e. ?g i = Inl e \<and> extractStatusCode (what e) \<in> retriable_status_codes default_retry_config"
    by simp
  have g2: "(0::nat) = 0 \<or> int 0 \<le> max_retries default_retry_config"
    by simp
  have g3: "(\<exists>v. ?g 0 = Inr v)
         \<or> (\<exists>e. ?g 0 = Inl e \<and> extractStatusCode (what e) \<notin> retriable_status_codes default_retry_config)
         \<or> max_retries default_retry_config \<le> int 0"
    by (simp add: es400 default_retry_config_def init_retry_config_def)
  from executeWithRetry_outcome[OF h1 h2 h3] executeWithRetry_outcome[OF g1 g2 g3] default_delays
  show ?thesis by simp
qed


lemma extractStatusCode_binance_429:
  "extractStatusCode ''API error - Code: -1003, Message: Too many requests.'' = - 1003"
  by (simp add: extractStatusCode_def find_str_def stoi_def isspace_def isdigit_def
      digits_value_def Let_def)

text \<open>
  Claim C5 does not hold of the adapter. The retry decision reads its code from the text
  of the exception, and no error of \<^verbatim>\<open>makeRequest\<close> carries the status code of the HTTP
  response, which \<^verbatim>\<open>makeRequest\<close> never reads. When the exchange answers an order with HTTP
  429 and its rate-limit body (code -1003), \<^verbatim>\<open>placeOrder\<close> surfaces the error after the first
  attempt: no retry, no delay, although 429 is in the retriable set and retries are left.
  The same holds whatever the status code of that response is.
\<close>

theorem api_placeOrder_http_429_not_retried:
  assumes "tryAcquire 0"
    and "validateSymbol (rq_symbol request) = None"
    and "replies 0 = HttpResponse status (ApiErrorBody ''-1003'' ''Too many requests.'')"
  shows "api_placeOrder (init_retry_config mr d m) tryAcquire replies request
           = (Inl (RuntimeError ''API error - Code: -1003, Message: Too many requests.''), [])
       \<and> makeRequest http_method endpoint (HttpResponse status body)
           = makeRequest http_method endpoint (HttpResponse 200 body)"
proof -
  have "\<not> shouldRetry (init_retry_config mr d m) (- 1003) 0"
    by (simp add: shouldRetry_def init_retry_config_def)
  then have 1: "api_placeOrder (init_retry_config mr d m) tryAcquire replies request
           = (Inl (RuntimeError ''API error - Code: -1003, Message: Too many requests.''), [])"
    unfolding api_placeOrder_def executeWithRetry_def
    using assms
    by (subst executeWithRetry_from.simps)
       (simp add: makeRequest_def extractStatusCode_binance_429)
  have 2: "makeRequest http_method endpoint (HttpResponse status body)
           = makeRequest http_method endpoint (HttpResponse 200 body)"
    by (simp add: makeRequest_def)
  from 1 2 show ?thesis by blast
qed

theorem api_placeOrder_http_429_not_retried_witness:
  "api_placeOrder default_retry_config (\<lambda>i. True)
     (\<lambda>i. HttpResponse 429 (ApiErrorBody ''-1003'' ''Too many requests.''))
     \<lparr> rq_symbol = ''BTCUSDT'', rq_side = BUY, rq_type = LIMIT, rq_quantity = 1 / 100,
       rq_price = 50000, rq_stop_price = 0, rq_client_order_id = [],
       rq_time_in_force = GTC, rq_reduce_only = False, rq_close_position = False,
       rq_position_side = BOTH, rq_margin_type = ISOLATED, rq_activation_price = 0,
       rq_callback_rate = 0, rq_extra_params = Map.empty \<rparr>
   = (Inl (RuntimeError ''API error - Code: -1003, Message: Too many requests.''), [])
   \<and> 429 \<in> retriable_status_codes default_retry_config
   \<and> 0 < max_retries default_retry_config"
proof -
  let ?req = "\<lparr> rq_symbol = ''BTCUSDT'', rq_side = BUY, rq_type = LIMIT, rq_quantity = 1 / 100,
       rq_price = 50000, rq_stop_price = 0, rq_client_order_id = [],
       rq_time_in_force = GTC, rq_reduce_only = False, rq_close_position = False,
       rq_position_side = BOTH, rq_margin_type = ISOLATED, rq_activation_price = 0,
       rq_callback_rate = 0, rq_extra_params = Map.empty \<rparr>"
  have h1: "(\<lambda>i::nat. True) 0" by simp
  have h2: "validateSymbol (rq_symbol ?req) = None" by (simp add: validateSymbol_def)
  have h3: "(\<lambda>i::nat. HttpResponse 429 (ApiErrorBody ''-1003'' ''Too many requests.'') :: string Reply) 0
              = HttpResponse 429 (ApiErrorBody ''-1003'' ''Too many requests.'')" by simp
  from api_placeOrder_http_429_not_retried[OF h1 h2 h3, where mr = 3 and d = 1000 and m = 2
      and http_method = "''POST''" and endpoint = "''/fapi/v1/order''"
      and body = "NotJson [] :: string HttpBody"]
  show ?thesis by (simp add: default_retry_config_def init_retry_config_def)
qed

subsection \<open>Waiting for a fill\<close>

lemma extractStatusCode_empty_symbol: "extractStatusCode ''Symbol cannot be empty'' = 0"
  by (simp add: extractStatusCode_def find_str_def)

lemma api_getOrderStatus_empty_symbol:
  assumes "0 \<notin> retriable_status_codes cfg"
  shows "api_getOrderStatus cfg http [] orderId
           = (Inl (InvalidArgument ''Symbol cannot be empty''), [])"
proof -
  have "\<not> shouldRetry cfg 0 0"
    using assms by (simp add: shouldRetry_def)
  then show ?thesis
    unfolding api_getOrderStatus_def executeWithRetry_def
    by (subst executeWithRetry_from.simps)
       (simp add: validateSymbol_def extractStatusCode_empty_symbol)
qed

lemma getOrderStatus_miss_empty_symbol:
  assumes "0 \<notin> retriable_status_codes cfg" and "active_orders om orderId = None"
  shows "getOrderStatus cfg http om [] orderId
           = (Inl (InvalidArgument ''Symbol cannot be empty''), [])"
  using assms by (simp add: getOrderStatus_def api_getOrderStatus_empty_symbol)

lemma waitForOrderFill_from_miss:
  assumes "0 \<notin> retriable_status_codes cfg" and "active_orders (oms k) orderId = None"
  shows "waitForOrderFill_from cfg http oms orderId timeout_ms k elapsed = (False, [])"
  by (subst waitForOrderFill_from.simps)
     (simp add: getOrderStatus_miss_empty_symbol[OF assms])

lemma handleOrderUpdate_filled_evicts:
  assumes "oi_status upd = FILLED"
  shows "active_orders (handleOrderUpdate om upd) (oi_order_id upd) = None"
  using assms by (simp add: handleOrderUpdate_def updateOrderCache_def)

lemma executeWithRetry_from_always_fails:
  "fst (executeWithRetry_from cfg (\<lambda>i. Inl e) rc d) = (Inl e :: exception + 'a)"
proof (induction cfg "\<lambda>i::nat. (Inl e :: exception + 'a)" rc d rule: executeWithRetry_from.induct)
  case (1 cfg rc d)
  show ?case
  proof (cases "shouldRetry cfg (extractStatusCode (what e)) rc")
    case True
    with 1 show ?thesis
      by (subst executeWithRetry_from.simps) simp
  next
    case False
    then show ?thesis
      by (subst executeWithRetry_from.simps) simp
  qed
qed

lemma waitForOrderFill_from_miss_false:
  assumes "active_orders (oms k) orderId = None"
  shows "fst (waitForOrderFill_from cfg http oms orderId timeout_ms k elapsed) = False"
proof -
  have "fst (getOrderStatus cfg (http k) (oms k) [] orderId)
          = Inl (InvalidArgument ''Symbol cannot be empty'')"
    using assms
    by (simp add: getOrderStatus_def api_getOrderStatus_def executeWithRetry_def
        validateSymbol_def executeWithRetry_from_always_fails)
  then show ?thesis
    by (subst waitForOrderFill_from.simps) (simp add: Let_def)
qed



text \<open>
  Claim C10. When the order id is not in the cache at a poll, \<^verbatim>\<open>waitForOrderFill\<close> returns
  false at that poll: the miss sends \<^verbatim>\<open>getOrderStatus\<close> to the adapter with the empty
  symbol, \<^verbatim>\<open>validateSymbol\<close> throws, and the exception is answered with false. The code
  extracted from that exception's text is 0, so with a retriable set that does not hold 0
  (the constructor's set does not) nothing is slept on the way. That covers an order whose
  \<open>FILLED\<close> update has just evicted it from the cache.
\<close>

theorem waitForOrderFill_cache_miss:
  "(active_orders (oms k) orderId = None \<longrightarrow>
      fst (waitForOrderFill_from cfg http oms orderId timeout_ms k elapsed) = False)
   \<and> (active_orders (oms k) orderId = None \<and> 0 \<notin> retriable_status_codes cfg \<longrightarrow>
      waitForOrderFill_from cfg http oms orderId timeout_ms k elapsed = (False, []))
   \<and> (active_orders (oms 0) orderId = None \<and> 0 \<notin> retriable_status_codes cfg \<longrightarrow>
      waitForOrderFill cfg http oms orderId timeout_ms = (False, []))
   \<and> (oi_status upd = FILLED \<and> oms k = handleOrderUpdate om upd
        \<and> 0 \<notin> retriable_status_codes cfg \<longrightarrow>
      waitForOrderFill_from cfg http oms (oi_order_id upd) timeout_ms k elapsed = (False, []))"
proof -
  have a: "active_orders (oms k) orderId = None \<longrightarrow>
      fst (waitForOrderFill_from cfg http oms orderId timeout_ms k elapsed) = False"
    using waitForOrderFill_from_miss_false by blast
  have b: "active_orders (oms k) orderId = None \<and> 0 \<notin> retriable_status_codes cfg \<longrightarrow>
      waitForOrderFill_from cfg http oms orderId timeout_ms k elapsed = (False, [])"
    using waitForOrderFill_from_miss by blast
  have c: "active_orders (oms 0) orderId = None \<and> 0 \<notin> retriable_status_codes cfg \<longrightarrow>
      waitForOrderFill cfg http oms orderId timeout_ms = (False, [])"
    using waitForOrderFill_from_miss by (simp add: waitForOrderFill_def)
  have d: "oi_status upd = FILLED \<and> oms k = handleOrderUpdate om upd
        \<and> 0 \<notin> retriable_status_codes cfg \<longrightarrow>
      waitForOrderFill_from cfg http oms (oi_order_id upd) timeout_ms k elapsed = (False, [])"
  proof
    assume h: "oi_status upd = FILLED \<and> oms k = handleOrderUpdate om upd
        \<and> 0 \<notin> retriable_status_codes cfg"
    then have "active_orders (oms k) (oi_order_id upd) = None"
      by (simp add: handleOrderUpdate_filled_evicts)
    with h show "waitForOrderFill_from cfg http oms (oi_order_id upd) timeout_ms k elapsed = (False, [])"
      using waitForOrderFill_from_miss by blast
  qed
  from a b c d show ?thesis by blast
qed

theorem waitForOrderFill_cache_miss_witness:
  "0 \<notin> retriable_status_codes default_retry_config
   \<and> waitForOrderFill default_retry_config (\<lambda>k i. Inl (RuntimeError ''unreachable''))
        (\<lambda>k. \<lparr> om_config = \<lparr> om_max_retry_times = 3, om_retry_delay_ms = 200,
                               om_price_deviation_threshold = 1 / 1000,
                               om_order_timeout_ms = 5000, om_use_post_only = True \<rparr>,
                 active_orders = Map.empty \<rparr>)
        ''12345'' 5000 = (False, [])"
proof -
  have h: "0 \<notin> retriable_status_codes default_retry_config"
    by (simp add: default_retry_config_def init_retry_config_def)
  from waitForOrderFill_cache_miss[of
      "\<lambda>k. \<lparr> om_config = \<lparr> om_max_retry_times = 3, om_retry_delay_ms = 200,
                               om_price_deviation_threshold = 1 / 1000,
                               om_order_timeout_ms = 5000, om_use_post_only = True \<rparr>,
                 active_orders = Map.empty \<rparr>" 0 "''12345''" default_retry_config] h
  show ?thesis by simp
qed

subsection \<open>Terminal records and the active-orders index\<close>

text \<open>The cache update evicts a record that arrives with a terminal status.\<close>

lemma updateOrderCache_evicts_terminal:
  "is_terminal (oi_status order) \<Longrightarrow> active_orders (updateOrderCache om order) (oi_order_id order) = None"
  by (cases "oi_status order") (simp_all add: updateOrderCache_def)


text \<open>
  Claim C2 does not hold of \<^verbatim>\<open>cancelOrder\<close>. When the adapter confirms the cancellation of
  a cached order, \<^verbatim>\<open>cancelOrder\<close> returns true and writes the status \<open>CANCELED\<close> into the
  cached record, which stays in the index: a terminal record is present in it.
\<close>

theorem cancelOrder_leaves_canceled_record:
  assumes "active_orders om orderId = Some info"
    and "validateSymbol symbol = None"
    and "http 0 = Inr ()"
  shows "cancelOrder cfg http om symbol orderId
           = (True, om\<lparr>active_orders := (active_orders om)(orderId \<mapsto> info\<lparr>oi_status := CANCELED\<rparr>)\<rparr>)
       \<and> (\<exists>r. active_orders (snd (cancelOrder cfg http om symbol orderId)) orderId = Some r
              \<and> is_terminal (oi_status r))"
proof -
  have "api_cancelOrder cfg http symbol orderId = (Inr True, [])"
    unfolding api_cancelOrder_def executeWithRetry_def
    using assms(2,3) by (subst executeWithRetry_from.simps) simp
  then have 1: "cancelOrder cfg http om symbol orderId
           = (True, om\<lparr>active_orders := (active_orders om)(orderId \<mapsto> info\<lparr>oi_status := CANCELED\<rparr>)\<rparr>)"
    using assms(1) by (simp add: cancelOrder_def)
  then show ?thesis by simp
qed

theorem cancelOrder_leaves_canceled_record_witness:
  "(let info = \<lparr> oi_order_id = ''12345'', oi_client_order_id = [], oi_symbol = ''BTCUSDT'',
                  oi_side = BUY, oi_type = LIMIT, oi_status = NEW, oi_position_side = BOTH,
                  oi_margin_type = ISOLATED, oi_original_quantity = 1, oi_executed_quantity = 0,
                  oi_remaining_quantity = 1, oi_price = 50000, oi_average_price = 0,
                  oi_stop_price = 0, oi_commission = 0, oi_commission_asset = [] \<rparr>;
        om = \<lparr> om_config = \<lparr> om_max_retry_times = 3, om_retry_delay_ms = 200,
                              om_price_deviation_threshold = 1 / 1000,
                              om_order_timeout_ms = 5000, om_use_post_only = True \<rparr>,
                active_orders = [''12345'' \<mapsto> info] \<rparr>;
        r = cancelOrder default_retry_config (\<lambda>i. Inr ()) om ''BTCUSDT'' ''12345''
    in fst r \<and> active_orders (snd r) ''12345'' = Some (info\<lparr>oi_status := CANCELED\<rparr>)
       \<and> is_terminal (oi_status (info\<lparr>oi_status := CANCELED\<rparr>)))"
proof -
  let ?info = "\<lparr> oi_order_id = ''12345'', oi_client_order_id = [], oi_symbol = ''BTCUSDT'',
                  oi_side = BUY, oi_type = LIMIT, oi_status = NEW, oi_position_side = BOTH,
                  oi_margin_type = ISOLATED, oi_original_quantity = 1, oi_executed_quantity = 0,
                  oi_remaining_quantity = 1, oi_price = 50000, oi_average_price = 0,
                  oi_stop_price = 0, oi_commission = 0, oi_commission_asset = [] \<rparr>"
  let ?om = "\<lparr> om_config = \<lparr> om_max_retry_times = 3, om_retry_delay_ms = 200,
                              om_price_deviation_threshold = 1 / 1000,
                              om_order_timeout_ms = 5000, om_use_post_only = True \<rparr>,
                active_orders = [''12345'' \<mapsto> ?info] \<rparr>"
  have h1: "active_orders ?om ''12345'' = Some ?info" by simp
  have h2: "validateSymbol ''BTCUSDT'' = None" by (simp add: validateSymbol_def)
  have h3: "(\<lambda>i::nat. Inr () :: exception + unit) 0 = Inr ()" by simp
  from cancelOrder_leaves_canceled_record[OF h1 h2 h3, of default_retry_config]
  show ?thesis by (simp add: Let_def)
qed

subsection \<open>Promotion to post-only\<close>

text \<open>
  Claim C6, as the code has it. With \<^verbatim>\<open>use_post_only\<close> enabled, a valid request whose mark
  price is available goes to the adapter as exactly one request, of type \<open>POST_ONLY\<close>
  whenever the requested type is not \<open>MARKET\<close>, and of type \<open>MARKET\<close> otherwise.
\<close>

theorem placeOrder_post_only_promotion:
  assumes "om_use_post_only (om_config om)"
    and "validateOrderRequest request"
    and "ex_getMarkPrice api (rq_symbol request) = Inr mark_price"
  shows "map rq_type (snd (snd (placeOrder api blank om request)))
           = [if rq_type request = MARKET then MARKET else POST_ONLY]"
  using assms
  by (simp add: placeOrder_def Let_def split: sum.splits)

theorem placeOrder_post_only_promotion_witness:
  "(let om = \<lparr> om_config = \<lparr> om_max_retry_times = 3, om_retry_delay_ms = 200,
                              om_price_deviation_threshold = 1 / 1000,
                              om_order_timeout_ms = 5000, om_use_post_only = True \<rparr>,
                active_orders = Map.empty \<rparr>;
        api = \<lparr> ex_getMarkPrice = (\<lambda>s. Inr 50000), ex_placeOrder = (\<lambda>r. Inr ''1'') \<rparr>;
        blank = \<lparr> oi_order_id = [], oi_client_order_id = [], oi_symbol = [],
                  oi_side = BUY, oi_type = MARKET, oi_status = NEW, oi_position_side = BOTH,
                  oi_margin_type = ISOLATED, oi_original_quantity = 0, oi_executed_quantity = 0,
                  oi_remaining_quantity = 0, oi_price = 0, oi_average_price = 0,
                  oi_stop_price = 0, oi_commission = 0, oi_commission_asset = [] \<rparr>;
        request = \<lparr> rq_symbol = ''BTCUSDT'', rq_side = BUY, rq_type = LIMIT, rq_quantity = 1,
                     rq_price = 50000, rq_stop_price = 0, rq_client_order_id = [],
                     rq_time_in_force = GTC, rq_reduce_only = False, rq_close_position = False,
                     rq_position_side = BOTH, rq_margin_type = ISOLATED, rq_activation_price = 0,
                     rq_callback_rate = 0, rq_extra_params = Map.empty \<rparr>
    in map rq_type (snd (snd (placeOrder api blank om request))) = [POST_ONLY]
       \<and> map rq_type (snd (snd (placeOrder api blank om (request\<lparr>rq_type := MARKET\<rparr>)))) = [MARKET])"
proof -
  let ?om = "\<lparr> om_config = \<lparr> om_max_retry_times = 3, om_retry_delay_ms = 200,
                              om_price_deviation_threshold = 1 / 1000,
                              om_order_timeout_ms = 5000, om_use_post_only = True \<rparr>,
                active_orders = Map.empty \<rparr>"
  let ?api = "\<lparr> ex_getMarkPrice = (\<lambda>s. Inr 50000), ex_placeOrder = (\<lambda>r. Inr ''1'') \<rparr>"
  let ?request = "\<lparr> rq_symbol = ''BTCUSDT'', rq_side = BUY, rq_type = LIMIT, rq_quantity = 1,
                     rq_price = 50000, rq_stop_price = 0, rq_client_order_id = [],
                     rq_time_in_force = GTC, rq_reduce_only = False, rq_close_position = False,
                     rq_position_side = BOTH, rq_margin_type = ISOLATED, rq_activation_price = 0,
                     rq_callback_rate = 0, rq_extra_params = Map.empty \<rparr>"
  have h1: "om_use_post_only (om_config ?om)" by simp
  have h2: "validateOrderRequest ?request" by (simp add: validateOrderRequest_def)
  have h2': "validateOrderRequest (?request\<lparr>rq_type := MARKET\<rparr>)" by (simp add: validateOrderRequest_def)
  have h3: "ex_getMarkPrice ?api (rq_symbol ?request) = Inr 50000" by simp
  have h3': "ex_getMarkPrice ?api (rq_symbol (?request\<lparr>rq_type := MARKET\<rparr>)) = Inr 50000" by simp
  from placeOrder_post_only_promotion[OF h1 h2 h3] placeOrder_post_only_promotion[OF h1 h2' h3']
  show ?thesis by (simp add: Let_def)
qed

text \<open>
  Against claim C6 as stated: a \<open>STOP_LIMIT\<close> request is placed as \<open>POST_ONLY\<close>, not with
  its requested type.
\<close>

theorem placeOrder_stop_limit_counterexample:
  "(let om = \<lparr> om_config = \<lparr> om_max_retry_times = 3, om_retry_delay_ms = 200,
                              om_price_deviation_threshold = 1 / 1000,
                              om_order_timeout_ms = 5000, om_use_post_only = True \<rparr>,
                active_orders = Map.empty \<rparr>;
        api = \<lparr> ex_getMarkPrice = (\<lambda>s. Inr 50000), ex_placeOrder = (\<lambda>r. Inr ''1'') \<rparr>;
        blank = \<lparr> oi_order_id = [], oi_client_order_id = [], oi_symbol = [],
                  oi_side = BUY, oi_type = MARKET, oi_status = NEW, oi_position_side = BOTH,
                  oi_margin_type = ISOLATED, oi_original_quantity = 0, oi_executed_quantity = 0,
                  oi_remaining_quantity = 0, oi_price = 0, oi_average_price = 0,
                  oi_stop_price = 0, oi_commission = 0, oi_commission_asset = [] \<rparr>;
        request = \<lparr> rq_symbol = ''BTCUSDT'', rq_side = SELL, rq_type = STOP_LIMIT, rq_quantity = 1,
                     rq_price = 49000, rq_stop_price = 49500, rq_client_order_id = [],
                     rq_time_in_force = GTC, rq_reduce_only = False, rq_close_position = False,
                     rq_position_side = BOTH, rq_margin_type = ISOLATED, rq_activation_price = 0,
                     rq_callback_rate = 0, rq_extra_params = Map.empty \<rparr>
    in fst (placeOrder api blank om request) = Inr ''1''
       \<and> map rq_type (snd (snd (placeOrder api blank om request))) = [POST_ONLY]
       \<and> map rq_type (snd (snd (placeOrder api blank om request))) \<noteq> [rq_type request])"
  by (simp add: placeOrder_def validateOrderRequest_def calculateSlippagePrice_def Let_def)

subsection \<open>Emergency mode\<close>

text \<open>
  Claim C7. While the emergency-mode flag is set, \<^verbatim>\<open>checkNewPosition\<close> never approves: for
  every symbol, size and funding rate it returns false, provided \<^verbatim>\<open>recordRiskEvent\<close>
  returns. \<^verbatim>\<open>recordRiskEvent\<close> is called before the \<^verbatim>\<open>try\<close>, and its emergency hooks are not
  in the sources; should one of them throw, that exception leaves \<^verbatim>\<open>checkNewPosition\<close>
  in place of the false. The other checks play no part.
\<close>

theorem checkNewPosition_emergency_mode:
  assumes "emergency_mode rm"
  shows "fst (checkNewPosition env now rm symbol psize funding_rate)
           = (case fst (recordRiskEvent env now POSITION_LIMIT_BREACH symbol psize 0 rm) of
                None \<Rightarrow> Inr False
              | Some e \<Rightarrow> Inl e)
       \<and> fst (checkNewPosition env now rm symbol psize funding_rate) \<noteq> Inr True
       \<and> (fst (recordRiskEvent env now POSITION_LIMIT_BREACH symbol psize 0 rm) = None \<longrightarrow>
            fst (checkNewPosition env now rm symbol psize funding_rate) = Inr False)"
  using assms by (simp add: checkNewPosition_def Let_def split: option.splits)

theorem checkNewPosition_emergency_mode_witness:
  "(let rm = \<lparr> emergency_mode = True,
                limits = \<lparr> rl_max_position_size = 1, rl_max_total_positions = 3,
                           rl_max_leverage = 20, rl_max_drawdown = 1 / 10,
                           rl_max_daily_loss = 5 / 100, rl_max_hourly_loss = 2 / 100,
                           rl_min_margin_ratio = 5 / 100, rl_max_funding_exposure = 1 / 100,
                           rl_max_trades_per_hour = 30, rl_price_deviation_threshold = 3 / 1000 \<rparr>,
                position_risks = [], recent_events = [] \<rparr>;
        env = \<lparr> env_calculateRequiredMargin = (\<lambda>s q m. Some 0),
                 env_checkMarginRequirements = (\<lambda>s q m. (Some True, m)),
                 env_checkFundingRateExposure = (\<lambda>s f q m. (Some True, m)),
                 env_checkVolatility = (\<lambda>s m. (Some True, m)),
                 env_checkTradingFrequency = (\<lambda>s m. (Some True, m)),
                 env_updateMetrics = (\<lambda>s m. m),
                 env_callback = None,
                 env_shouldTriggerEmergency = (\<lambda>t m. Inr (t = LIQUIDATION_WARNING)),
                 env_handleEmergencyCase = (\<lambda>s e m. (None, m)) \<rparr>
    in emergency_mode rm
       \<and> fst (recordRiskEvent env 0 POSITION_LIMIT_BREACH ''BTCUSDT'' (1 / 100) 0 rm) = None
       \<and> fst (checkNewPosition env 0 rm ''BTCUSDT'' (1 / 100) (1 / 1000)) = Inr False
       \<and> fst (checkNewPosition env 0 (rm\<lparr>emergency_mode := False\<rparr>) ''BTCUSDT'' (1 / 100) (1 / 1000))
           = Inr True)"
proof -
  let ?rm = "\<lparr> emergency_mode = True,
                limits = \<lparr> rl_max_position_size = 1, rl_max_total_positions = 3,
                           rl_max_leverage = 20, rl_max_drawdown = 1 / 10,
                           rl_max_daily_loss = 5 / 100, rl_max_hourly_loss = 2 / 100,
                           rl_min_margin_ratio = 5 / 100, rl_max_funding_exposure = 1 / 100,
                           rl_max_trades_per_hour = 30, rl_price_deviation_threshold = 3 / 1000 \<rparr>,
                position_risks = [], recent_events = [] \<rparr>"
  let ?env = "\<lparr> env_calculateRequiredMargin = (\<lambda>s q m. Some 0),
                 env_checkMarginRequirements = (\<lambda>s q m. (Some True, m)),
                 env_checkFundingRateExposure = (\<lambda>s f q m. (Some True, m)),
                 env_checkVolatility = (\<lambda>s m. (Some True, m)),
                 env_checkTradingFrequency = (\<lambda>s m. (Some True, m)),
                 env_updateMetrics = (\<lambda>s m. m),
                 env_callback = None,
                 env_shouldTriggerEmergency = (\<lambda>t m. Inr (t = LIQUIDATION_WARNING)),
                 env_handleEmergencyCase = (\<lambda>s e m. (None, m)) \<rparr>"
  have h: "emergency_mode ?rm" by simp
  have r: "fst (recordRiskEvent ?env 0 POSITION_LIMIT_BREACH ''BTCUSDT'' (1 / 100) 0 ?rm) = None"
    by (simp add: recordRiskEvent_def Let_def)
  have ok: "fst (checkNewPosition ?env 0 (?rm\<lparr>emergency_mode := False\<rparr>) ''BTCUSDT'' (1 / 100) (1 / 1000))
              = Inr True"
    by (simp add: checkNewPosition_def checkPositionLimits_def passed_def)
  from checkNewPosition_emergency_mode[OF h, of ?env 0 "''BTCUSDT''" "1 / 100" "1 / 1000"] r ok
  show ?thesis by (simp add: Let_def)
qed

text \<open>The exception path of the emergency branch, with no callback registered.\<close>

lemma checkNewPosition_emergency_handler_throws:
  assumes "emergency_mode rm"
    and "env_callback env = None"
    and "env_shouldTriggerEmergency env POSITION_LIMIT_BREACH
           (cleanupOldEvents now (rm\<lparr>recent_events := recent_events rm @
              [\<lparr> re_type = POSITION_LIMIT_BREACH, re_symbol = symbol,
                 re_message = risk_event_message POSITION_LIMIT_BREACH,
                 re_threshold_value = 0, re_current_value = psize, re_time = now \<rparr>]\<rparr>)) = Inl e"
  shows "fst (checkNewPosition env now rm symbol psize funding_rate) = Inl e"
  using assms by (simp add: checkNewPosition_def recordRiskEvent_def Let_def)

subsection \<open>Pre-funding window\<close>

lemma tpm_pos: "0 < ticks_per_minute" by (simp add: ticks_per_minute_def)

lemma duration_cast_minutes_pos:
  "(0 < duration_cast_minutes d) = (ticks_per_minute \<le> d)"
proof (cases "d < 0")
  case True
  have "0 \<le> (- d) div ticks_per_minute"
    using True tpm_pos by (simp add: pos_imp_zdiv_nonneg_iff)
  with True tpm_pos show ?thesis by (simp add: duration_cast_minutes_def)
next
  case False
  with tpm_pos show ?thesis
    by (simp add: duration_cast_minutes_def pos_imp_zdiv_pos_iff)
qed

lemma int_div_less_iff:
  assumes "0 < (m::int)"
  shows "(d div m < n) = (d < n * m)"
proof
  have split: "d = (d div m) * m + d mod m" by simp
  have r: "0 \<le> d mod m" "d mod m < m" using assms by simp_all
  {
    assume "d div m < n"
    then have "d div m + 1 \<le> n" by simp
    then have "(d div m + 1) * m \<le> n * m" using assms by (simp only: mult_right_mono less_imp_le)
    then have "(d div m) * m + m \<le> n * m" by (simp add: algebra_simps)
    with split r show "d < n * m" by linarith
  }
  {
    assume lt: "d < n * m"
    show "d div m < n"
    proof (rule ccontr)
      assume "\<not> d div m < n"
      then have "n \<le> d div m" by simp
      then have "n * m \<le> (d div m) * m" using assms by (simp only: mult_right_mono less_imp_le)
      with split r lt show False by linarith
    qed
  }
qed

lemma duration_cast_minutes_le:
  assumes "0 \<le> d"
  shows "(duration_cast_minutes d \<le> p) = (d < (p + 1) * ticks_per_minute)"
proof -
  have "(d div ticks_per_minute \<le> p) = (d div ticks_per_minute < p + 1)" by auto
  also have "\<dots> = (d < (p + 1) * ticks_per_minute)"
    using tpm_pos by (rule int_div_less_iff)
  finally show ?thesis using assms by (simp add: duration_cast_minutes_def)
qed

lemma window_cond:
  "(duration_cast_minutes (ii_next_funding_time i - now) \<le> pre_funding_minutes params
      \<and> duration_cast_minutes (ii_next_funding_time i - now) > 0)
   = (ticks_per_minute \<le> ii_next_funding_time i - now
      \<and> ii_next_funding_time i - now < (pre_funding_minutes params + 1) * ticks_per_minute)"
proof (cases "ticks_per_minute \<le> ii_next_funding_time i - now")
  case True
  then have "0 \<le> ii_next_funding_time i - now" using tpm_pos by linarith
  from duration_cast_minutes_le[OF this] True show ?thesis
    by (simp add: duration_cast_minutes_pos)
next
  case False
  then show ?thesis
    by (simp add: duration_cast_minutes_pos)
qed

lemma checkTradingWindow_loop_ex:
  "checkTradingWindow_loop params now xs
     = list_ex (\<lambda>i. ticks_per_minute \<le> ii_next_funding_time i - now
          \<and> ii_next_funding_time i - now < (pre_funding_minutes params + 1) * ticks_per_minute) xs"
  by (induction xs) (auto simp: Let_def window_cond)

text \<open>
  Claim C4, as the code has it. The window check works on the time to funding cut to
  whole minutes. A snapshot is in the window exactly when its time to funding is at least
  one minute and less than \<open>pre_funding_minutes + 1\<close> minutes; the engine is in the window
  when some active instrument is. So, with the default of 60 minutes, a time to funding of
  exactly 60 minutes is inside, 0 is outside, and so is half a minute.
\<close>

theorem checkTradingWindow_whole_minutes:
  "checkTradingWindow params st now
     = list_ex (\<lambda>i. ticks_per_minute \<le> ii_next_funding_time i - now
          \<and> ii_next_funding_time i - now < (pre_funding_minutes params + 1) * ticks_per_minute)
         (active_instruments st)
   \<and> checkTradingWindow params (st\<lparr>active_instruments := [instrument]\<rparr>) now
     = (ticks_per_minute \<le> ii_next_funding_time instrument - now
        \<and> ii_next_funding_time instrument - now < (pre_funding_minutes params + 1) * ticks_per_minute)
   \<and> checkTradingWindow default_params
        (st\<lparr>active_instruments := [instrument\<lparr>ii_next_funding_time := now + 60 * ticks_per_minute\<rparr>]\<rparr>) now
   \<and> \<not> checkTradingWindow default_params
        (st\<lparr>active_instruments := [instrument\<lparr>ii_next_funding_time := now\<rparr>]\<rparr>) now
   \<and> \<not> checkTradingWindow default_params
        (st\<lparr>active_instruments := [instrument\<lparr>ii_next_funding_time := now + ticks_per_minute div 2\<rparr>]\<rparr>) now"
  by (simp add: checkTradingWindow_def checkTradingWindow_loop_ex default_params_def ticks_per_minute_def)

text \<open>
  Against claim C4 as stated: 30 seconds before funding lies strictly between 0 and
  \<open>pre_funding_minutes\<close>, yet the check says out of window.
\<close>

theorem checkTradingWindow_fraction_counterexample:
  "(let instrument = \<lparr> ii_symbol = ''BTCUSDT'', ii_spot_price = 50000, ii_futures_price = 50050,
                          ii_funding_rate = 1 / 1000, ii_funding_fee = 0,
                          ii_next_funding_time = 30 * 1000000000, ii_volume_24h = 10000000,
                          ii_liquidity_score = 1, ii_bid_ask_spread = 5, ii_basis = 1 / 1000 \<rparr>;
        st = \<lparr> is_pre_funding_window = False, active_instruments = [instrument],
                 spot_positions = Map.empty, futures_positions = Map.empty, total_pnl = 0,
                 current_drawdown = 0, st_max_drawdown = 0, hourly_pnl_history = [] \<rparr>;
        now = 0
    in 0 < ii_next_funding_time instrument - now
       \<and> ii_next_funding_time instrument - now \<le> pre_funding_minutes default_params * ticks_per_minute
       \<and> \<not> checkTradingWindow default_params st now)"
  by (simp add: checkTradingWindow_def duration_cast_minutes_def ticks_per_minute_def
      default_params_def Let_def)


subsection \<open>Rebalancing after a pair trade\<close>

text \<open>
  Claim C3, as the code has it. \<^verbatim>\<open>balancePositions\<close> places an order only when the imbalance
  \<open>\<bar>spot + futures\<bar>\<close> exceeds the tolerance: then one order of size imbalance / 2, a spot
  sell when \<open>spot > - futures\<close> and a futures buy otherwise. For legs 0.01 and -0.007 and
  a tolerance of 0.001 that is a spot sell of 0.0015.
\<close>

theorem balancePositions_orders:
  "snd (balancePositions params st symbol)
     = (let spot_position = fst (map_at (spot_positions st) symbol);
            futures_position = fst (map_at (futures_positions st) symbol);
            imbalance = \<bar>spot_position + futures_position\<bar>
        in if imbalance > position_imbalance_tolerance params
           then (if spot_position > - futures_position
                 then [SingleOrder symbol (imbalance / 2) True False]
                 else [SingleOrder symbol (imbalance / 2) False True])
           else [])
   \<and> snd (balancePositions (default_params\<lparr>position_imbalance_tolerance := 1 / 1000\<rparr>)
          \<lparr> is_pre_funding_window = True, active_instruments = [],
            spot_positions = [''BTCUSDT'' \<mapsto> 1 / 100],
            futures_positions = [''BTCUSDT'' \<mapsto> - (7 / 1000)],
            total_pnl = 0, current_drawdown = 0, st_max_drawdown = 0,
            hourly_pnl_history = [] \<rparr> ''BTCUSDT'')
     = [SingleOrder ''BTCUSDT'' (15 / 10000) True False]"
proof -
  have a: "snd (balancePositions params st symbol)
     = (let spot_position = fst (map_at (spot_positions st) symbol);
            futures_position = fst (map_at (futures_positions st) symbol);
            imbalance = \<bar>spot_position + futures_position\<bar>
        in if imbalance > position_imbalance_tolerance params
           then (if spot_position > - futures_position
                 then [SingleOrder symbol (imbalance / 2) True False]
                 else [SingleOrder symbol (imbalance / 2) False True])
           else [])"
    by (simp add: balancePositions_def Let_def split: prod.splits)
  have b: "snd (balancePositions (default_params\<lparr>position_imbalance_tolerance := 1 / 1000\<rparr>)
          \<lparr> is_pre_funding_window = True, active_instruments = [],
            spot_positions = [''BTCUSDT'' \<mapsto> 1 / 100],
            futures_positions = [''BTCUSDT'' \<mapsto> - (7 / 1000)],
            total_pnl = 0, current_drawdown = 0, st_max_drawdown = 0,
            hourly_pnl_history = [] \<rparr> ''BTCUSDT'')
     = [SingleOrder ''BTCUSDT'' (15 / 10000) True False]"
    by (simp add: balancePositions_def map_at_def default_params_def Let_def)
  from a b show ?thesis by blast
qed

text \<open>
  Against claim C3 as stated: with the default tolerance 0.01 the imbalance 0.003 of the
  legs 0.01 and -0.007 is within tolerance, and no order is placed.
\<close>

theorem balancePositions_default_tolerance_counterexample:
  "snd (balancePositions default_params
          \<lparr> is_pre_funding_window = True, active_instruments = [],
            spot_positions = [''BTCUSDT'' \<mapsto> 1 / 100],
            futures_positions = [''BTCUSDT'' \<mapsto> - (7 / 1000)],
            total_pnl = 0, current_drawdown = 0, st_max_drawdown = 0,
            hourly_pnl_history = [] \<rparr> ''BTCUSDT'') = []
   \<and> position_imbalance_tolerance default_params = 1 / 100"
  by (simp add: balancePositions_def map_at_def default_params_def Let_def)

subsection \<open>Drawdown\<close>

lemma max_element_Max: "xs \<noteq> [] \<Longrightarrow> max_element xs = Max (set xs)"
proof -
  assume "xs \<noteq> []"
  then obtain y ys where xs: "xs = y # ys" by (cases xs) auto
  have 1: "foldl max y ys = fold max ys y"
    by (simp add: foldl_conv_fold max.commute)
  have 2: "Max (set (y # ys)) = fold max ys y"
    by (rule Max.set_eq_fold)
  have "max_element (y # ys) = foldl max y ys"
    by (simp add: max_element_def)
  with 1 2 show ?thesis
    by (simp only: xs)
qed

text \<open>
  Claim C8, as the code has it. With an empty series \<^verbatim>\<open>updateDrawdown\<close> changes nothing.
  Otherwise, with \<open>peak\<close> the maximum of the series, the current drawdown becomes
  \<open>(peak - total_pnl) / peak\<close> when \<open>peak > 0\<close> and keeps its previous value when
  \<open>peak \<le> 0\<close>; the maximum drawdown becomes the larger of its previous value and the
  current drawdown. For the series 100, 90, 80, 70, 60, 50 and a total of 50 the current
  drawdown is 0.5.
\<close>

theorem updateDrawdown_state:
  "fst (updateDrawdown params st)
     = (if hourly_pnl_history st = [] then st
        else let peak = Max (set (hourly_pnl_history st));
                 dd = (if peak > 0 then (peak - total_pnl st) / peak else current_drawdown st)
             in st\<lparr>current_drawdown := dd, st_max_drawdown := max (st_max_drawdown st) dd\<rparr>)
   \<and> current_drawdown (fst (updateDrawdown params
         \<lparr> is_pre_funding_window = False, active_instruments = [],
           spot_positions = Map.empty, futures_positions = Map.empty,
           total_pnl = 50, current_drawdown = 0, st_max_drawdown = 0,
           hourly_pnl_history = [100, 90, 80, 70, 60, 50] \<rparr>)) = 1 / 2"
proof -
  have a: "fst (updateDrawdown params st)
     = (if hourly_pnl_history st = [] then st
        else let peak = Max (set (hourly_pnl_history st));
                 dd = (if peak > 0 then (peak - total_pnl st) / peak else current_drawdown st)
             in st\<lparr>current_drawdown := dd, st_max_drawdown := max (st_max_drawdown st) dd\<rparr>)"
  proof (cases "hourly_pnl_history st = []")
    case True
    then show ?thesis by (simp add: updateDrawdown_def)
  next
    case False
    then show ?thesis
      by (simp add: updateDrawdown_def max_element_Max Let_def max_def)
  qed
  have b: "current_drawdown (fst (updateDrawdown params
         \<lparr> is_pre_funding_window = False, active_instruments = [],
           spot_positions = Map.empty, futures_positions = Map.empty,
           total_pnl = 50, current_drawdown = 0, st_max_drawdown = 0,
           hourly_pnl_history = [100, 90, 80, 70, 60, 50] \<rparr>)) = 1 / 2"
    by (simp add: updateDrawdown_def max_element_def Let_def)
  from a b show ?thesis by blast
qed

text \<open>
  Against claim C8 as stated: with a series whose maximum is not positive, the current
  drawdown is not reset to 0; it keeps the value it had.
\<close>

theorem updateDrawdown_nonpositive_peak_counterexample:
  "(let st = \<lparr> is_pre_funding_window = False, active_instruments = [],
                spot_positions = Map.empty, futures_positions = Map.empty,
                total_pnl = - 5, current_drawdown = 3 / 10, st_max_drawdown = 3 / 10,
                hourly_pnl_history = [- 5] \<rparr>
    in Max (set (hourly_pnl_history st)) \<le> 0
       \<and> current_drawdown (fst (updateDrawdown default_params st)) = 3 / 10
       \<and> current_drawdown (fst (updateDrawdown default_params st)) \<noteq> 0)"
  by (simp add: updateDrawdown_def max_element_def Let_def)


subsection \<open>Closing a pair\<close>

text \<open>With both legs long and every order going through, both legs are sold and the
  pair's entries are erased.\<close>

lemma closePositions_long_legs:
  assumes "symbol \<noteq> []"
    and "spot_positions st symbol = Some s"
    and "futures_positions st symbol = Some f"
    and "0 < s" and "0 < f"
    and "\<forall>c. exec c = None"
  shows "closePositions params exec st symbol
           = (None,
              st\<lparr>spot_positions := (spot_positions st)(symbol := None),
                 futures_positions := (futures_positions st)(symbol := None)\<rparr>,
              if use_twap params
              then [TwapOrder symbol s True False, TwapOrder symbol f False False]
              else [SingleOrder symbol s True False, SingleOrder symbol f False False])"
proof -
  have "close_symbol params exec st symbol
           = (None,
              st\<lparr>spot_positions := (spot_positions st)(symbol := None),
                 futures_positions := (futures_positions st)(symbol := None)\<rparr>,
              if use_twap params
              then [TwapOrder symbol s True False, TwapOrder symbol f False False]
              else [SingleOrder symbol s True False, SingleOrder symbol f False False])"
    using assms(2-6) by (simp add: close_symbol_def map_at_def Let_def)
  then show ?thesis
    using assms(1) by (simp add: closePositions_def)
qed


text \<open>
  Claim C1 does not hold of \<^verbatim>\<open>closePositions\<close>. For a pair with a long spot leg and a short
  futures leg (what a pair trade opens when the futures price is above the spot price)
  the only order issued is the sale of the spot leg: the guard \<^verbatim>\<open>futures_size > 0\<close> skips
  the short leg. Both entries of the pair are erased all the same.
\<close>

theorem closePositions_skips_short_leg:
  assumes "symbol \<noteq> []"
    and "spot_positions st symbol = Some s"
    and "futures_positions st symbol = Some f"
    and "0 < s" and "f < 0"
    and "exec (TwapOrder symbol s True False) = None"
    and "exec (SingleOrder symbol s True False) = None"
  shows "closePositions params exec st symbol
           = (None,
              st\<lparr>spot_positions := (spot_positions st)(symbol := None),
                 futures_positions := (futures_positions st)(symbol := None)\<rparr>,
              [if use_twap params then TwapOrder symbol s True False
               else SingleOrder symbol s True False])"
proof -
  have "close_symbol params exec st symbol
           = (None,
              st\<lparr>spot_positions := (spot_positions st)(symbol := None),
                 futures_positions := (futures_positions st)(symbol := None)\<rparr>,
              [if use_twap params then TwapOrder symbol s True False
               else SingleOrder symbol s True False])"
    using assms(2-7) by (simp add: close_symbol_def map_at_def Let_def)
  then show ?thesis
    using assms(1) by (simp add: closePositions_def)
qed

theorem closePositions_skips_short_leg_witness:
  "(let st = \<lparr> is_pre_funding_window = False, active_instruments = [],
                spot_positions = [''BTCUSDT'' \<mapsto> 1 / 100],
                futures_positions = [''BTCUSDT'' \<mapsto> - (1 / 100)],
                total_pnl = 0, current_drawdown = 0, st_max_drawdown = 0,
                hourly_pnl_history = [] \<rparr>
    in closePositions default_params (\<lambda>c. None) st ''BTCUSDT''
         = (None, st\<lparr>spot_positions := Map.empty, futures_positions := Map.empty\<rparr>,
            [TwapOrder ''BTCUSDT'' (1 / 100) True False]))"
proof -
  let ?st = "\<lparr> is_pre_funding_window = False, active_instruments = [],
                spot_positions = [''BTCUSDT'' \<mapsto> 1 / 100],
                futures_positions = [''BTCUSDT'' \<mapsto> - (1 / 100)],
                total_pnl = 0, current_drawdown = 0, st_max_drawdown = 0,
                hourly_pnl_history = [] \<rparr>"
  have h1: "''BTCUSDT'' \<noteq> []" by simp
  have h2: "spot_positions ?st ''BTCUSDT'' = Some (1 / 100)" by simp
  have h3: "futures_positions ?st ''BTCUSDT'' = Some (- (1 / 100))" by simp
  have h4: "(0::real) < 1 / 100" by simp
  have h5: "- (1 / 100) < (0::real)" by simp
  have h6: "(\<lambda>c::ExecCall. None :: exception option) (TwapOrder ''BTCUSDT'' (1 / 100) True False) = None" by simp
  have h7: "(\<lambda>c::ExecCall. None :: exception option) (SingleOrder ''BTCUSDT'' (1 / 100) True False) = None" by simp
  from closePositions_skips_short_leg[OF h1 h2 h3 h4 h5 h6 h7, of default_params]
  show ?thesis by (simp add: Let_def default_params_def)
qed


end
